theory Spec2Isabelle
  imports Main "HOL-Library.Word"
begin

section \<open>nixos-hydra-upgrade: the upgrade decision of cmd/root.go and nix.GetFlakeMetadata\<close>

text \<open>
  The program is one sequential run (the \<open>Run\<close> closure of \<open>NewRootCmd\<close>) that calls
  the Hydra client, the \<open>nix\<close> command, the ping health check and \<open>nixos-rebuild\<close>,
  and leaves through \<open>os.Exit\<close>, through a panic, or by returning. The model is a function
  from the configuration and the answers of everything outside the program to the list of
  observable events of the run, in order, and the way the run ends.
\<close>

subsection \<open>Errors, endings, events\<close>

datatype error =
    ExitError int string
      \<comment> \<open>\<open>exec.ExitError\<close>: the command ran and left with this nonzero status; its stderr\<close>
  | SyntaxError
      \<comment> \<open>\<open>json.SyntaxError\<close>: the bytes are not a JSON text\<close>
  | UnmarshalTypeError string string
      \<comment> \<open>\<open>json.UnmarshalTypeError\<close>: \<open>Value\<close> (what the JSON held) and \<open>Field\<close>\<close>
  | OtherError string
      \<comment> \<open>any other Go \<open>error\<close>, by its message\<close>

datatype ending =
    Exit int        \<comment> \<open>\<open>os.Exit(code)\<close>\<close>
  | Panic error     \<comment> \<open>\<open>panic(err)\<close>, never recovered\<close>

datatype level = LevelDebug | LevelInfo

datatype attr =
    slog_String string string   \<comment> \<open>\<open>slog.String(key, value)\<close>\<close>
  | slog_Int string int      \<comment> \<open>\<open>slog.Int(key, value)\<close>\<close>

record HydraClient =
  Instance :: string
  JobSet :: string
  Job :: string
  Project :: string

text \<open>
  Modelled from the spec: the declarations of \<open>hydra.Build\<close> and \<open>hydra.Eval\<close> (package
  \<open>hydra\<close>) are not among the sources. The fields are the ones the run reads:
  \<open>Finished\<close> (compared with 1), \<open>BuildStatus\<close> (an \<open>int\<close>: it is passed to
  \<open>slog.Int\<close>, compared with 0) and \<open>Flake\<close>. Only equality with a constant is ever asked of
  the two integers, so they are unbounded \<open>int\<close> here. \<open>BuildId\<close> is the spec's opaque build
  identifier; it stands for the rest of the build, which the run only hands on to \<open>GetEval\<close>.
\<close>

record Build =
  Finished :: int
  BuildStatus :: int
  BuildId :: nat

record Eval =
  Flake :: string

record FlakeMetadata =
  LastModified :: "64 word"   \<comment> \<open>\<open>int64\<close>, unix timestamp\<close>
  OriginalUrl :: string

text \<open>
  Modelled from the spec: the declaration of \<open>config.Config\<close> is not among the sources.
  These are the fields the run reads; a nested field \<open>conf.A.B\<close> is \<open>A_B\<close>.
\<close>

record Config =
  Debug :: bool
  Hydra_Instance :: string
  Hydra_JobSet :: string
  Hydra_Job :: string
  Hydra_Project :: string
  HealthCheck_CanaryHosts :: "string list"
  NixOSRebuild_Host :: string
  NixOSRebuild_Operation :: string
  NixOSRebuild_Args :: "string list"
  Reboot :: bool

datatype event =
    Log level string "attr list"
      \<comment> \<open>a record written by the default logger: level, message, attributes\<close>
  | Call_GetLatestBuild HydraClient
  | Call_GetEval HydraClient Build
  | Exec "string list"
      \<comment> \<open>\<open>exec.Command(name, args...).Output()\<close>: the command line\<close>
  | Call_Ping string
  | Call_NixosRebuild string string "string list"
  | Call_Reboot

subsection \<open>JSON values and what lies outside the program\<close>

text \<open>
  A JSON text after \<open>encoding/json\<close> has scanned it: a number keeps its literal, a string
  and an object key are the unquoted Go string (UTF-8 bytes), an object keeps its members in
  order, duplicates included.
\<close>

datatype json =
    JNull
  | JBool bool
  | JNumber string
  | JString string
  | JArray "json list"
  | JObject "(string \<times> json) list"

text \<open>
  Modelled from the spec: \<open>hydra.GetLatestBuild\<close>, \<open>hydra.GetEval\<close>,
  \<open>healthcheck.Ping\<close>, \<open>nix.NixosRebuild\<close> and \<open>nix.Reboot\<close> are not among the sources,
  and are taken as parameters. \<open>Run\<close> receives no error from them, \<open>Ping\<close> apart
  (\<open>GetLatestBuild\<close> and \<open>GetEval\<close> return one value, \<open>NixosRebuild\<close> and \<open>Reboot\<close> are
  called as statements), and in the spec every failure of theirs ends the run at once. So a
  call either comes back, which for \<open>NixosRebuild\<close> is the success of the external tool, or
  it ends the process itself (\<open>Inl\<close>, \<open>Some\<close>), as \<open>GetFlakeMetadata\<close> does by its panic.

  \<open>cmd_Output\<close> is what \<open>cmd.Output()\<close> returns for a command line: the bytes of stdout and
  the error, if any. The answers to the probes and to the external commands are indexed by
  their position in the run, since a host or a command may answer differently the second
  time. \<open>json_scan\<close> is the syntax layer of Go's \<open>encoding/json\<close>: \<open>None\<close> where the bytes
  are not a JSON text.
\<close>

record env =
  hydra_GetLatestBuild :: "HydraClient \<Rightarrow> ending + Build"
  hydra_GetEval :: "HydraClient \<Rightarrow> Build \<Rightarrow> ending + Eval"
  cmd_Output :: "nat \<Rightarrow> string list \<Rightarrow> string \<times> error option"
  json_scan :: "string \<Rightarrow> json option"
  healthcheck_Ping :: "nat \<Rightarrow> string \<Rightarrow> error option"
  nix_NixosRebuild :: "string \<Rightarrow> string \<Rightarrow> string list \<Rightarrow> ending option"
  nix_Reboot :: "ending option"

subsection \<open>Runs: events so far, and an ending or a value\<close>

type_synonym 'a proc = "event list \<times> (ending + 'a)"

definition ret :: "'a \<Rightarrow> 'a proc" where
  "ret x = ([], Inr x)"

definition andThen :: "'a proc \<Rightarrow> ('a \<Rightarrow> 'b proc) \<Rightarrow> 'b proc" where
  "andThen m f =
     (case m of
        (tr, Inl e) \<Rightarrow> (tr, Inl e)
      | (tr, Inr x) \<Rightarrow> (case f x of (tr', r) \<Rightarrow> (tr @ tr', r)))"

definition os_Exit :: "int \<Rightarrow> 'a proc" where
  "os_Exit code = ([], Inl (Exit code))"

definition panic :: "error \<Rightarrow> 'a proc" where
  "panic err = ([], Inl (Panic err))"

definition call :: "event \<Rightarrow> ending + 'a \<Rightarrow> 'a proc" where
  "call ev answer = ([ev], answer)"

definition returns :: "ending option \<Rightarrow> ending + unit" where
  "returns r = (case r of None \<Rightarrow> Inr () | Some e \<Rightarrow> Inl e)"

fun level_int :: "level \<Rightarrow> int" where
  "level_int LevelDebug = - 4"
| "level_int LevelInfo = 0"

definition slog :: "level \<Rightarrow> level \<Rightarrow> string \<Rightarrow> attr list \<Rightarrow> unit proc" where
  \<comment> \<open>\<open>slog.Debug\<close>/\<open>slog.Info\<close> on the default logger, whose handler has level \<open>logLevel\<close>\<close>
  "slog logLevel l msg attrs =
     (if level_int logLevel \<le> level_int l then ([Log l msg attrs], Inr ()) else ([], Inr ()))"

subsection \<open>Decoding the command's output: \<open>json.Unmarshal(output, &metadata)\<close>\<close>

text \<open>
  \<open>strconv.ParseInt(s, 10, 64)\<close>, which the decoder applies to a number literal bound
  for an \<open>int64\<close>: an optional sign, then decimal digits only, and the value must lie in
  \<open>[-2^63, 2^63 - 1]\<close>.
\<close>

definition isDigit :: "char \<Rightarrow> bool" where
  "isDigit c = (48 \<le> (of_char c :: nat) \<and> (of_char c :: nat) \<le> 57)"

definition digitsValue :: "string \<Rightarrow> int" where
  "digitsValue ds = foldl (\<lambda>n c. 10 * n + (int (of_char c) - 48)) 0 ds"

definition ParseInt :: "string \<Rightarrow> int option" where
  "ParseInt s =
     (case s of
        [] \<Rightarrow> None
      | c # r \<Rightarrow>
          (let neg = (c = CHR ''-'');
               ds = (if c = CHR ''+'' \<or> c = CHR ''-'' then r else s)
           in if ds = [] \<or> \<not> list_all isDigit ds then None
              else (let un = digitsValue ds
                    in if \<not> neg \<and> un \<ge> 2 ^ 63 then None
                       else if neg \<and> un > 2 ^ 63 then None
                       else Some (if neg then - un else un))))"

text \<open>
  The struct's two fields, by their tags \<open>json:"lastModified"\<close> and
  \<open>json:"originalUrl"\<close>. An object key selects a field when it equals the tag, or else
  when it equals it under the decoder's case folding: an ASCII letter folds to upper case,
  and so do the two letters outside ASCII whose simple case folding reaches ASCII, U+017F
  (bytes C5 BF, to S) and U+212A (bytes E2 84 AA, to K). Every other byte above 127 is kept as
  it is: the decoder folds such a rune to a rune outside ASCII, so it equals no letter of a
  tag either way.
\<close>

datatype field = F_LastModified | F_OriginalUrl

fun json_name :: "field \<Rightarrow> string" where
  "json_name F_LastModified = ''lastModified''"
| "json_name F_OriginalUrl = ''originalUrl''"

definition toUpper :: "char \<Rightarrow> char" where
  "toUpper c =
     (case map_of (zip ''abcdefghijklmnopqrstuvwxyz'' ''ABCDEFGHIJKLMNOPQRSTUVWXYZ'') c of
        Some u \<Rightarrow> u
      | None \<Rightarrow> c)"

fun foldName :: "string \<Rightarrow> string" where
  "foldName (a # b # c # cs) =
     (if [a, b, c] = [CHR 0xE2, CHR 0x84, CHR 0xAA] then CHR ''K'' # foldName cs
      else if [a, b] = [CHR 0xC5, CHR 0xBF] then CHR ''S'' # foldName (c # cs)
      else toUpper a # foldName (b # c # cs))"
| "foldName [a, b] =
     (if [a, b] = [CHR 0xC5, CHR 0xBF] then ''S'' else toUpper a # foldName [b])"
| "foldName [a] = [toUpper a]"
| "foldName [] = []"

definition fieldByName :: "string \<Rightarrow> field option" where
  "fieldByName key =
     (if key = json_name F_LastModified then Some F_LastModified
      else if key = json_name F_OriginalUrl then Some F_OriginalUrl
      else if foldName key = foldName (json_name F_LastModified) then Some F_LastModified
      else if foldName key = foldName (json_name F_OriginalUrl) then Some F_OriginalUrl
      else None)"

fun kind :: "json \<Rightarrow> string" where
  "kind JNull = ''null''"
| "kind (JBool _) = ''bool''"
| "kind (JNumber _) = ''number''"
| "kind (JString _) = ''string''"
| "kind (JArray _) = ''array''"
| "kind (JObject _) = ''object''"

text \<open>
  Storing one JSON value into one field. \<open>null\<close> leaves an \<open>int64\<close> or a \<open>string\<close>
  as it is; a value of the wrong kind, or a number that \<open>ParseInt\<close> refuses, leaves the
  field as it is and yields an \<open>UnmarshalTypeError\<close>.
\<close>

fun store :: "field \<Rightarrow> json \<Rightarrow> FlakeMetadata \<Rightarrow> FlakeMetadata \<times> error option" where
  "store f JNull m = (m, None)"
| "store F_LastModified (JNumber item) m =
     (case ParseInt item of
        None \<Rightarrow> (m, Some (UnmarshalTypeError (''number '' @ item) (json_name F_LastModified)))
      | Some n \<Rightarrow> (m\<lparr>LastModified := word_of_int n\<rparr>, None))"
| "store F_OriginalUrl (JString s) m = (m\<lparr>OriginalUrl := s\<rparr>, None)"
| "store f j m = (m, Some (UnmarshalTypeError (kind j) (json_name f)))"

definition saveError :: "error option \<Rightarrow> error option \<Rightarrow> error option" where
  \<comment> \<open>the decoder keeps the earliest error and goes on\<close>
  "saveError saved err = (case saved of None \<Rightarrow> err | Some e \<Rightarrow> Some e)"

fun object :: "(string \<times> json) list \<Rightarrow> FlakeMetadata \<times> error option
    \<Rightarrow> FlakeMetadata \<times> error option" where
  "object [] st = st"
| "object ((key, v) # kvs) (m, saved) =
     (case fieldByName key of
        None \<Rightarrow> object kvs (m, saved)
      | Some f \<Rightarrow> (case store f v m of (m', err) \<Rightarrow> object kvs (m', saveError saved err)))"

definition Unmarshal :: "(string \<Rightarrow> json option) \<Rightarrow> string \<Rightarrow> FlakeMetadata
    \<Rightarrow> FlakeMetadata \<times> error option" where
  "Unmarshal scan data v =
     (case scan data of
        None \<Rightarrow> (v, Some SyntaxError)
      | Some JNull \<Rightarrow> (v, None)
      | Some (JObject kvs) \<Rightarrow> object kvs (v, None)
      | Some j \<Rightarrow> (v, Some (UnmarshalTypeError (kind j) [])))"

subsection \<open>\<open>nix.GetFlakeMetadata\<close>\<close>

definition zeroMetadata :: FlakeMetadata where
  \<comment> \<open>\<open>var metadata FlakeMetadata\<close>\<close>
  "zeroMetadata = \<lparr>LastModified = 0, OriginalUrl = []\<rparr>"

fun digits :: "nat \<Rightarrow> string" where
  "digits n =
     (if n < 10 then [''0123456789'' ! n]
      else digits (n div 10) @ [''0123456789'' ! (n mod 10)])"

declare digits.simps [simp del]

definition formatInt :: "int \<Rightarrow> string" where
  "formatInt i = (if i < 0 then CHR ''-'' # digits (nat (- i)) else digits (nat i))"

definition formatMetadata :: "FlakeMetadata \<Rightarrow> string" where
  \<comment> \<open>\<open>fmt.Sprintf("%+v", metadata)\<close>\<close>
  "formatMetadata m =
     ''{LastModified:'' @ formatInt (sint (LastModified m))
       @ '' OriginalUrl:'' @ OriginalUrl m @ ''}''"

definition GetFlakeMetadata :: "env \<Rightarrow> level \<Rightarrow> nat \<Rightarrow> string \<Rightarrow> FlakeMetadata proc" where
  \<comment> \<open>\<open>k\<close>: which of the run's external commands this is; \<open>logLevel\<close>: the default logger's.
      Line 22 hands \<open>slog.Debug\<close> the attribute alone: the record has no message.\<close>
  "GetFlakeMetadata e logLevel k flake =
     (let cmd = [''nix'', ''flake'', ''metadata'', flake, ''--json''] in
      andThen (call (Exec cmd) (Inr (cmd_Output e k cmd))) (\<lambda>(output, err).
        case err of
          Some ex \<Rightarrow>
            andThen (slog logLevel LevelDebug [] [slog_String ''output'' output]) (\<lambda>_. panic ex)
        | None \<Rightarrow>
            (case Unmarshal (json_scan e) output zeroMetadata of
               (metadata, Some ex) \<Rightarrow> panic ex
             | (metadata, None) \<Rightarrow>
                 andThen (slog logLevel LevelDebug (formatMetadata metadata) [])
                   (\<lambda>_. ret metadata))))"

subsection \<open>The run of \<open>NewRootCmd\<close> (cmd/root.go, lines 55 to 112)\<close>

text \<open>
  The health checks: \<open>for _, h := range conf.HealthCheck.CanaryHosts\<close>. \<open>i\<close> is the
  position of the probe in the run.
\<close>

fun health_checks :: "env \<Rightarrow> level \<Rightarrow> nat \<Rightarrow> string list \<Rightarrow> unit proc" where
  "health_checks e logLevel i [] = ret ()"
| "health_checks e logLevel i (h # hs) =
     andThen (call (Call_Ping h) (Inr (healthcheck_Ping e i h))) (\<lambda>err.
       if err \<noteq> None then
         andThen (slog logLevel LevelInfo ''Ping healthcheck failed. Exiting.'' [slog_String ''host'' h])
           (\<lambda>_. os_Exit 1)
       else health_checks e logLevel (Suc i) hs)"

definition upgrade :: "Config \<Rightarrow> env \<Rightarrow> level \<Rightarrow> string \<Rightarrow> unit proc" where
  \<comment> \<open>lines 103 to 111\<close>
  "upgrade conf e logLevel flakeSpec =
     andThen (slog logLevel LevelInfo ''Performing system upgrade.'' [slog_String ''flake'' flakeSpec]) (\<lambda>_.
     andThen (call (Call_NixosRebuild (NixOSRebuild_Operation conf) flakeSpec (NixOSRebuild_Args conf))
                (returns (nix_NixosRebuild e (NixOSRebuild_Operation conf) flakeSpec
                   (NixOSRebuild_Args conf)))) (\<lambda>_.
     andThen (slog logLevel LevelInfo ''System upgrade complete.'' [slog_String ''flake'' flakeSpec]) (\<lambda>_.
     if Reboot conf then
       andThen (slog logLevel LevelInfo ''Initiating reboot'' [])
         (\<lambda>_. call Call_Reboot (returns (nix_Reboot e)))
     else ret ())))"

definition flakeSpec_of :: "FlakeMetadata \<Rightarrow> Config \<Rightarrow> string" where
  \<comment> \<open>\<open>fmt.Sprintf("%s#%s", hydraMetadata.OriginalUrl, conf.NixOSRebuild.Host)\<close>\<close>
  "flakeSpec_of hydraMetadata conf = OriginalUrl hydraMetadata @ ''#'' @ NixOSRebuild_Host conf"

definition gate_and_upgrade :: "Config \<Rightarrow> env \<Rightarrow> level \<Rightarrow> FlakeMetadata \<Rightarrow> unit proc" where
  \<comment> \<open>lines 93 to 111\<close>
  "gate_and_upgrade conf e logLevel hydraMetadata =
     (let flakeSpec = flakeSpec_of hydraMetadata conf in
      andThen (health_checks e logLevel 0 (HealthCheck_CanaryHosts conf))
        (\<lambda>_. upgrade conf e logLevel flakeSpec))"

definition compare_and_upgrade :: "Config \<Rightarrow> env \<Rightarrow> level \<Rightarrow> FlakeMetadata \<Rightarrow> FlakeMetadata
    \<Rightarrow> unit proc" where
  \<comment> \<open>lines 89 to 111; \<open>>=\<close> on \<open>int64\<close> is the signed order\<close>
  "compare_and_upgrade conf e logLevel selfMetadata hydraMetadata =
     (if LastModified hydraMetadata \<le>s LastModified selfMetadata then
        andThen (slog logLevel LevelInfo ''System is already up to date. Exiting.'' [])
          (\<lambda>_. os_Exit 0)
      else gate_and_upgrade conf e logLevel hydraMetadata)"

definition hydraClient_of :: "Config \<Rightarrow> HydraClient" where
  "hydraClient_of conf =
     \<lparr>Instance = Hydra_Instance conf, JobSet = Hydra_JobSet conf,
      Job = Hydra_Job conf, Project = Hydra_Project conf\<rparr>"

definition logLevel_of :: "Config \<Rightarrow> level" where
  "logLevel_of conf = (if Debug conf then LevelDebug else LevelInfo)"

definition Run :: "Config \<Rightarrow> env \<Rightarrow> unit proc" where
  "Run conf e =
     (let logLevel = logLevel_of conf;
          hydraClient = hydraClient_of conf
      in
      andThen (call (Call_GetLatestBuild hydraClient) (hydra_GetLatestBuild e hydraClient)) (\<lambda>build.
      if Finished build \<noteq> 1 then
        andThen (slog logLevel LevelInfo ''Latest build unfinished. Exiting.'' []) (\<lambda>_. os_Exit 0)
      else if BuildStatus build \<noteq> 0 then
        andThen (slog logLevel LevelInfo ''Latest build unsuccessful. Exiting.''
                   [slog_Int ''buildstatus'' (BuildStatus build)]) (\<lambda>_. os_Exit 1)
      else
        andThen (call (Call_GetEval hydraClient build) (hydra_GetEval e hydraClient build)) (\<lambda>eval.
        andThen (GetFlakeMetadata e logLevel 0 ''self'') (\<lambda>selfMetadata.
        andThen (slog logLevel LevelDebug ''hydraMetadata'' [slog_String ''flake'' (Flake eval)]) (\<lambda>_.
        andThen (GetFlakeMetadata e logLevel 1 (Flake eval)) (\<lambda>hydraMetadata.
        compare_and_upgrade conf e logLevel selfMetadata hydraMetadata))))))"

subsection \<open>What is read off a run\<close>

fun is_call :: "event \<Rightarrow> bool" where
  "is_call (Log _ _ _) = False"
| "is_call _ = True"

definition calls :: "event list \<Rightarrow> event list" where
  \<comment> \<open>the calls that leave the program, without the log records\<close>
  "calls tr = filter is_call tr"

fun is_upgrade :: "event \<Rightarrow> bool" where
  "is_upgrade (Call_NixosRebuild _ _ _) = True"
| "is_upgrade _ = False"

fun is_probe :: "event \<Rightarrow> bool" where
  "is_probe (Call_Ping _) = True"
| "is_probe _ = False"

text \<open>
  A run reaches the freshness comparison when the latest build came back finished and
  successful and the evaluation and both metadata came back. \<open>fetch_trace\<close> is what such a
  run has done by then, \<open>fetch_calls\<close> the calls among it.
\<close>

definition reaches_comparison :: "Config \<Rightarrow> env \<Rightarrow> Build \<Rightarrow> Eval \<Rightarrow> FlakeMetadata
    \<Rightarrow> FlakeMetadata \<Rightarrow> bool" where
  "reaches_comparison conf e build eval selfMetadata hydraMetadata =
     (hydra_GetLatestBuild e (hydraClient_of conf) = Inr build
      \<and> Finished build = 1 \<and> BuildStatus build = 0
      \<and> hydra_GetEval e (hydraClient_of conf) build = Inr eval
      \<and> snd (GetFlakeMetadata e (logLevel_of conf) 0 ''self'') = Inr selfMetadata
      \<and> snd (GetFlakeMetadata e (logLevel_of conf) 1 (Flake eval)) = Inr hydraMetadata)"

definition fetch_trace :: "Config \<Rightarrow> env \<Rightarrow> Build \<Rightarrow> Eval \<Rightarrow> event list" where
  "fetch_trace conf e build eval =
     [Call_GetLatestBuild (hydraClient_of conf), Call_GetEval (hydraClient_of conf) build]
     @ fst (GetFlakeMetadata e (logLevel_of conf) 0 ''self'')
     @ fst (slog (logLevel_of conf) LevelDebug ''hydraMetadata'' [slog_String ''flake'' (Flake eval)])
     @ fst (GetFlakeMetadata e (logLevel_of conf) 1 (Flake eval))"

definition fetch_calls :: "Config \<Rightarrow> Build \<Rightarrow> Eval \<Rightarrow> event list" where
  "fetch_calls conf build eval =
     [Call_GetLatestBuild (hydraClient_of conf), Call_GetEval (hydraClient_of conf) build,
      Exec [''nix'', ''flake'', ''metadata'', ''self'', ''--json''],
      Exec [''nix'', ''flake'', ''metadata'', Flake eval, ''--json'']]"

subsection \<open>Notions for the statements about decoding\<close>

text \<open>
  For the statements about decoding: a value fits a field when storing it raises no error;
  an object is well typed when every member whose key selects a field holds a value that fits
  it; an object mentions a field when the key of one of its members selects it.
\<close>

fun fits :: "field \<Rightarrow> json \<Rightarrow> bool" where
  "fits f JNull = True"
| "fits F_LastModified (JNumber item) = (ParseInt item \<noteq> None)"
| "fits F_OriginalUrl (JString s) = True"
| "fits f j = False"

definition well_typed :: "(string \<times> json) list \<Rightarrow> bool" where
  "well_typed members =
     list_all (\<lambda>(key, v). case fieldByName key of None \<Rightarrow> True | Some f \<Rightarrow> fits f v) members"

definition mentions :: "field \<Rightarrow> (string \<times> json) list \<Rightarrow> bool" where
  "mentions f members = list_ex (\<lambda>(key, v). fieldByName key = Some f) members"

definition metadata_cmd :: "string \<Rightarrow> string list" where
  "metadata_cmd flake = [''nix'', ''flake'', ''metadata'', flake, ''--json'']"

subsection \<open>Example configurations and environments\<close>

text \<open>
  A configuration with the given canary hosts and reboot flag, and an environment in which
  the latest build is \<open>build\<close>, the two \<open>nix flake metadata\<close> commands answer
  \<open>selfOut\<close> and \<open>targetOut\<close>, the hosts in \<open>down\<close> do not answer a ping, and
  \<open>nixos-rebuild\<close> and the reboot come back. \<open>example_scan\<close> is the JSON scanner on the
  few texts the examples use; every other text counts as malformed there.
\<close>

definition example_conf :: "string list \<Rightarrow> bool \<Rightarrow> Config" where
  "example_conf hosts reboot =
     \<lparr>Debug = False,
      Hydra_Instance = ''https://hydra.example.org'', Hydra_JobSet = ''main'',
      Hydra_Job = ''host1'', Hydra_Project = ''nixos'',
      HealthCheck_CanaryHosts = hosts,
      NixOSRebuild_Host = ''host1'', NixOSRebuild_Operation = ''boot'', NixOSRebuild_Args = [],
      Reboot = reboot\<rparr>"

definition example_texts :: "(string \<times> json) list" where
  \<open>example_texts =
     [(''{"lastModified":100,"originalUrl":"github:example/flake"}'',
         JObject [(''lastModified'', JNumber ''100''),
                  (''originalUrl'', JString ''github:example/flake'')]),
      (''{"lastModified":200,"originalUrl":"github:example/flake"}'',
         JObject [(''lastModified'', JNumber ''200''),
                  (''originalUrl'', JString ''github:example/flake'')]),
      (''{"originalUrl":"github:example/flake"}'',
         JObject [(''originalUrl'', JString ''github:example/flake'')]),
      (''{"originalUrl":5}'', JObject [(''originalUrl'', JNumber ''5'')]),
      (''{"LASTMODIFIED":7}'', JObject [(''LASTMODIFIED'', JNumber ''7'')]),
      (''{}'', JObject []),
      (''[]'', JArray [])]\<close>

definition example_scan :: "string \<Rightarrow> json option" where
  "example_scan = map_of example_texts"

definition example_env :: "Build \<Rightarrow> string \<times> error option \<Rightarrow> string \<times> error option
    \<Rightarrow> string list \<Rightarrow> env" where
  "example_env build selfOut targetOut down =
     \<lparr>hydra_GetLatestBuild = (\<lambda>_. Inr build),
      hydra_GetEval = (\<lambda>_ _. Inr \<lparr>Flake = ''git+https://example.org/flake''\<rparr>),
      cmd_Output = (\<lambda>k _. if k = 0 then selfOut else targetOut),
      json_scan = example_scan,
      healthcheck_Ping = (\<lambda>_ h. if h \<in> set down then Some (OtherError ''unreachable'') else None),
      nix_NixosRebuild = (\<lambda>_ _ _. None),
      nix_Reboot = None\<rparr>"

definition example_build :: "int \<Rightarrow> int \<Rightarrow> Build" where
  "example_build finished status = \<lparr>Finished = finished, BuildStatus = status, BuildId = 42\<rparr>"

definition metadata_text :: "nat \<Rightarrow> string \<times> error option" where
  \<open>metadata_text t =
     (if t = 100 then (''{"lastModified":100,"originalUrl":"github:example/flake"}'', None)
      else (''{"lastModified":200,"originalUrl":"github:example/flake"}'', None))\<close>

section \<open>Properties\<close>

subsection \<open>Sequencing, logging, the health checks\<close>

lemma andThen_Inl [simp]: "andThen (tr, Inl en) f = (tr, Inl en)"
  by (simp add: andThen_def)

lemma andThen_Inr [simp]: "andThen (tr, Inr x) f = (tr @ fst (f x), snd (f x))"
  by (simp add: andThen_def split: prod.splits)

lemma andThen_alt:
  "andThen m f =
     (case snd m of Inl en \<Rightarrow> (fst m, Inl en) | Inr x \<Rightarrow> (fst m @ fst (f x), snd (f x)))"
  by (cases m) (auto simp: andThen_def split: sum.splits prod.splits)

lemma slog_Info [simp]: "slog logLevel LevelInfo msg attrs = ([Log LevelInfo msg attrs], Inr ())"
  by (cases logLevel) (simp_all add: slog_def)

lemma slog_snd [simp]: "snd (slog logLevel l msg attrs) = Inr ()"
  by (simp add: slog_def)

lemma slog_calls [simp]: "calls (fst (slog logLevel l msg attrs)) = []"
  by (simp add: slog_def calls_def)

lemma health_checks_pass:
  "(\<forall>i<length hs. healthcheck_Ping e (k + i) (hs ! i) = None)
     \<Longrightarrow> health_checks e logLevel k hs = (map Call_Ping hs, Inr ())"
proof (induction hs arbitrary: k)
  case Nil
  then show ?case by (simp add: ret_def)
next
  case (Cons h hs)
  have h0: "healthcheck_Ping e k h = None" using Cons.prems by force
  have "\<forall>i<length hs. healthcheck_Ping e (Suc k + i) (hs ! i) = None"
    using Cons.prems by force
  then have "health_checks e logLevel (Suc k) hs = (map Call_Ping hs, Inr ())"
    by (rule Cons.IH)
  then show ?case using h0 by (simp add: call_def)
qed

lemma health_checks_fail:
  "j < length hs \<Longrightarrow> healthcheck_Ping e (k + j) (hs ! j) = Some err
     \<Longrightarrow> (\<forall>i<j. healthcheck_Ping e (k + i) (hs ! i) = None)
     \<Longrightarrow> health_checks e logLevel k hs =
           (map Call_Ping (take (Suc j) hs)
              @ [Log LevelInfo ''Ping healthcheck failed. Exiting.'' [slog_String ''host'' (hs ! j)]],
            Inl (Exit 1))"
proof (induction hs arbitrary: k j)
  case Nil
  then show ?case by simp
next
  case (Cons h hs)
  show ?case
  proof (cases j)
    case 0
    then show ?thesis using Cons.prems by (simp add: call_def os_Exit_def)
  next
    case (Suc j')
    have h0: "healthcheck_Ping e k h = None" using Cons.prems(3) Suc by force
    have a: "j' < length hs" using Cons.prems(1) Suc by simp
    have b: "healthcheck_Ping e (Suc k + j') (hs ! j') = Some err"
      using Cons.prems(2) Suc by simp
    have c: "\<forall>i<j'. healthcheck_Ping e (Suc k + i) (hs ! i) = None"
    proof (intro allI impI)
      fix i assume "i < j'"
      then have "Suc i < j" using Suc by simp
      then have "healthcheck_Ping e (k + Suc i) ((h # hs) ! Suc i) = None"
        using Cons.prems(3) by blast
      then show "healthcheck_Ping e (Suc k + i) (hs ! i) = None" by simp
    qed
    have "health_checks e logLevel (Suc k) hs =
           (map Call_Ping (take (Suc j') hs)
              @ [Log LevelInfo ''Ping healthcheck failed. Exiting.''
                   [slog_String ''host'' (hs ! j')]],
            Inl (Exit 1))"
      by (rule Cons.IH [OF a b c])
    then show ?thesis using h0 Suc by (simp add: call_def)
  qed
qed

text \<open>Either every probe of the list succeeds, or there is a first one that fails.\<close>

lemma first_failing_probe:
  "(\<forall>i<length hs. healthcheck_Ping e (k + i) (hs ! i) = None)
   \<or> (\<exists>j err. j < length hs \<and> healthcheck_Ping e (k + j) (hs ! j) = Some err
         \<and> (\<forall>i<j. healthcheck_Ping e (k + i) (hs ! i) = None))"
proof (cases "\<forall>i<length hs. healthcheck_Ping e (k + i) (hs ! i) = None")
  case True
  then show ?thesis by simp
next
  case False
  define P where "P = (\<lambda>i. i < length hs \<and> healthcheck_Ping e (k + i) (hs ! i) \<noteq> None)"
  from False have ex: "\<exists>i. P i" by (auto simp: P_def)
  define j where "j = (LEAST i. P i)"
  have Pj: "P j" unfolding j_def using ex by (metis LeastI)
  have min: "\<And>i. i < j \<Longrightarrow> \<not> P i" unfolding j_def by (rule not_less_Least)
  from Pj obtain err where "healthcheck_Ping e (k + j) (hs ! j) = Some err" "j < length hs"
    by (auto simp: P_def)
  moreover have "\<forall>i<j. healthcheck_Ping e (k + i) (hs ! i) = None"
  proof (intro allI impI)
    fix i assume ij: "i < j"
    then have "\<not> P i" by (rule min)
    moreover have "i < length hs" using ij \<open>j < length hs\<close> by simp
    ultimately show "healthcheck_Ping e (k + i) (hs ! i) = None" by (simp add: P_def)
  qed
  ultimately show ?thesis by blast
qed

subsection \<open>The run up to the build checks\<close>

lemma GetFlakeMetadata_calls:
  "calls (fst (GetFlakeMetadata e logLevel k flake))
     = [Exec [''nix'', ''flake'', ''metadata'', flake, ''--json'']]"
  by (auto simp: GetFlakeMetadata_def Let_def call_def panic_def ret_def calls_def slog_def
      split: prod.splits option.splits)

lemma Run_unfinished:
  assumes "hydra_GetLatestBuild e (hydraClient_of conf) = Inr build" and "Finished build \<noteq> 1"
  shows "Run conf e =
    ([Call_GetLatestBuild (hydraClient_of conf),
      Log LevelInfo ''Latest build unfinished. Exiting.'' []],
     Inl (Exit 0))"
  using assms by (simp add: Run_def Let_def call_def os_Exit_def)

lemma Run_unsuccessful:
  assumes "hydra_GetLatestBuild e (hydraClient_of conf) = Inr build"
    and "Finished build = 1" and "BuildStatus build \<noteq> 0"
  shows "Run conf e =
    ([Call_GetLatestBuild (hydraClient_of conf),
      Log LevelInfo ''Latest build unsuccessful. Exiting.''
        [slog_Int ''buildstatus'' (BuildStatus build)]],
     Inl (Exit 1))"
  using assms by (simp add: Run_def Let_def call_def os_Exit_def)

lemma Run_finished_ok:
  assumes "hydra_GetLatestBuild e (hydraClient_of conf) = Inr build"
    and "Finished build = 1" and "BuildStatus build = 0"
  shows "Run conf e =
    andThen ([Call_GetLatestBuild (hydraClient_of conf)], Inr ()) (\<lambda>_.
    andThen (call (Call_GetEval (hydraClient_of conf) build)
               (hydra_GetEval e (hydraClient_of conf) build)) (\<lambda>eval.
    andThen (GetFlakeMetadata e (logLevel_of conf) 0 ''self'') (\<lambda>selfMetadata.
    andThen (slog (logLevel_of conf) LevelDebug ''hydraMetadata''
               [slog_String ''flake'' (Flake eval)]) (\<lambda>_.
    andThen (GetFlakeMetadata e (logLevel_of conf) 1 (Flake eval)) (\<lambda>hydraMetadata.
    compare_and_upgrade conf e (logLevel_of conf) selfMetadata hydraMetadata)))))"
  using assms by (simp add: Run_def Let_def call_def)

subsection \<open>The paths of a run\<close>

lemma calls_append [simp]: "calls (xs @ ys) = calls xs @ calls ys"
  by (simp add: calls_def)

lemma calls_Cons [simp]: "calls (x # xs) = (if is_call x then x # calls xs else calls xs)"
  by (simp add: calls_def)

lemma calls_Nil [simp]: "calls [] = []"
  by (simp add: calls_def)

lemma calls_fetch_trace: "calls (fetch_trace conf e build eval) = fetch_calls conf build eval"
  by (simp add: fetch_trace_def fetch_calls_def GetFlakeMetadata_calls)

lemma Run_reaches_comparison:
  assumes "reaches_comparison conf e build eval selfMetadata hydraMetadata"
  shows "Run conf e =
    (fetch_trace conf e build eval
       @ fst (compare_and_upgrade conf e (logLevel_of conf) selfMetadata hydraMetadata),
     snd (compare_and_upgrade conf e (logLevel_of conf) selfMetadata hydraMetadata))"
proof -
  from assms have g: "hydra_GetLatestBuild e (hydraClient_of conf) = Inr build"
    and f: "Finished build = 1" and s: "BuildStatus build = 0"
    and ev: "hydra_GetEval e (hydraClient_of conf) build = Inr eval"
    and m1: "snd (GetFlakeMetadata e (logLevel_of conf) 0 ''self'') = Inr selfMetadata"
    and m2: "snd (GetFlakeMetadata e (logLevel_of conf) 1 (Flake eval)) = Inr hydraMetadata"
    by (simp_all add: reaches_comparison_def)
  show ?thesis
    unfolding Run_finished_ok [OF g f s] using ev m1 m2
    by (simp add: andThen_alt call_def fetch_trace_def)
qed

lemma upgrade_calls:
  "calls (fst (upgrade conf e logLevel flakeSpec)) =
     Call_NixosRebuild (NixOSRebuild_Operation conf) flakeSpec (NixOSRebuild_Args conf)
     # (if nix_NixosRebuild e (NixOSRebuild_Operation conf) flakeSpec (NixOSRebuild_Args conf) = None
           \<and> Reboot conf
        then [Call_Reboot] else [])"
  by (simp add: upgrade_def call_def returns_def ret_def split: option.splits)

lemma upgrade_ending:
  "snd (upgrade conf e logLevel flakeSpec) =
     (case nix_NixosRebuild e (NixOSRebuild_Operation conf) flakeSpec (NixOSRebuild_Args conf) of
        Some en \<Rightarrow> Inl en
      | None \<Rightarrow> if Reboot conf then returns (nix_Reboot e) else Inr ())"
  by (simp add: upgrade_def call_def returns_def ret_def split: option.splits)


lemma compare_noop:
  "LastModified hydraMetadata \<le>s LastModified selfMetadata \<Longrightarrow>
   compare_and_upgrade conf e logLevel selfMetadata hydraMetadata =
     ([Log LevelInfo ''System is already up to date. Exiting.'' []], Inl (Exit 0))"
  by (simp add: compare_and_upgrade_def os_Exit_def)

lemma compare_newer:
  "\<not> LastModified hydraMetadata \<le>s LastModified selfMetadata \<Longrightarrow>
   compare_and_upgrade conf e logLevel selfMetadata hydraMetadata =
     gate_and_upgrade conf e logLevel hydraMetadata"
  by (simp add: compare_and_upgrade_def)

lemma gate_pass:
  assumes "\<forall>i<length (HealthCheck_CanaryHosts conf).
             healthcheck_Ping e i (HealthCheck_CanaryHosts conf ! i) = None"
  shows "gate_and_upgrade conf e logLevel hydraMetadata =
     (map Call_Ping (HealthCheck_CanaryHosts conf)
        @ fst (upgrade conf e logLevel (flakeSpec_of hydraMetadata conf)),
      snd (upgrade conf e logLevel (flakeSpec_of hydraMetadata conf)))"
proof -
  have "health_checks e logLevel 0 (HealthCheck_CanaryHosts conf)
          = (map Call_Ping (HealthCheck_CanaryHosts conf), Inr ())"
    by (rule health_checks_pass) (simp add: assms)
  then show ?thesis by (simp add: gate_and_upgrade_def Let_def)
qed

lemma gate_fail:
  assumes "j < length (HealthCheck_CanaryHosts conf)"
    and "healthcheck_Ping e j (HealthCheck_CanaryHosts conf ! j) = Some err"
    and "\<forall>i<j. healthcheck_Ping e i (HealthCheck_CanaryHosts conf ! i) = None"
  shows "gate_and_upgrade conf e logLevel hydraMetadata =
     (map Call_Ping (take (Suc j) (HealthCheck_CanaryHosts conf))
        @ [Log LevelInfo ''Ping healthcheck failed. Exiting.''
             [slog_String ''host'' (HealthCheck_CanaryHosts conf ! j)]],
      Inl (Exit 1))"
proof -
  have "health_checks e logLevel 0 (HealthCheck_CanaryHosts conf) =
     (map Call_Ping (take (Suc j) (HealthCheck_CanaryHosts conf))
        @ [Log LevelInfo ''Ping healthcheck failed. Exiting.''
             [slog_String ''host'' (HealthCheck_CanaryHosts conf ! j)]],
      Inl (Exit 1))"
    by (rule health_checks_fail [where err = err]) (simp_all add: assms)
  then show ?thesis by (simp add: gate_and_upgrade_def Let_def)
qed

lemma calls_map_Ping [simp]: "calls (map Call_Ping hs) = map Call_Ping hs"
  by (induction hs) simp_all

text \<open>Every run takes one of eleven paths; each fixes the calls made and the ending.\<close>

lemma Run_paths:
  obtains
    (latest_build_fails) en where
      "hydra_GetLatestBuild e (hydraClient_of conf) = Inl en"
      "calls (fst (Run conf e)) = [Call_GetLatestBuild (hydraClient_of conf)]"
      "snd (Run conf e) = Inl en"
  | (unfinished) build where
      "hydra_GetLatestBuild e (hydraClient_of conf) = Inr build" "Finished build \<noteq> 1"
      "calls (fst (Run conf e)) = [Call_GetLatestBuild (hydraClient_of conf)]"
      "snd (Run conf e) = Inl (Exit 0)"
  | (unsuccessful) build where
      "hydra_GetLatestBuild e (hydraClient_of conf) = Inr build" "Finished build = 1"
      "BuildStatus build \<noteq> 0"
      "calls (fst (Run conf e)) = [Call_GetLatestBuild (hydraClient_of conf)]"
      "snd (Run conf e) = Inl (Exit 1)"
  | (eval_fails) build en where
      "hydra_GetLatestBuild e (hydraClient_of conf) = Inr build" "Finished build = 1"
      "BuildStatus build = 0"
      "hydra_GetEval e (hydraClient_of conf) build = Inl en"
      "calls (fst (Run conf e)) =
         [Call_GetLatestBuild (hydraClient_of conf), Call_GetEval (hydraClient_of conf) build]"
      "snd (Run conf e) = Inl en"
  | (self_metadata_fails) build eval en where
      "hydra_GetLatestBuild e (hydraClient_of conf) = Inr build" "Finished build = 1"
      "BuildStatus build = 0"
      "hydra_GetEval e (hydraClient_of conf) build = Inr eval"
      "snd (GetFlakeMetadata e (logLevel_of conf) 0 ''self'') = Inl en"
      "calls (fst (Run conf e)) =
         [Call_GetLatestBuild (hydraClient_of conf), Call_GetEval (hydraClient_of conf) build,
          Exec [''nix'', ''flake'', ''metadata'', ''self'', ''--json'']]"
      "snd (Run conf e) = Inl en"
  | (target_metadata_fails) build eval selfMetadata en where
      "hydra_GetLatestBuild e (hydraClient_of conf) = Inr build" "Finished build = 1"
      "BuildStatus build = 0"
      "hydra_GetEval e (hydraClient_of conf) build = Inr eval"
      "snd (GetFlakeMetadata e (logLevel_of conf) 0 ''self'') = Inr selfMetadata"
      "snd (GetFlakeMetadata e (logLevel_of conf) 1 (Flake eval)) = Inl en"
      "calls (fst (Run conf e)) = fetch_calls conf build eval"
      "snd (Run conf e) = Inl en"
  | (up_to_date) build eval selfMetadata hydraMetadata where
      "reaches_comparison conf e build eval selfMetadata hydraMetadata"
      "LastModified hydraMetadata \<le>s LastModified selfMetadata"
      "calls (fst (Run conf e)) = fetch_calls conf build eval"
      "snd (Run conf e) = Inl (Exit 0)"
  | (probe_fails) build eval selfMetadata hydraMetadata j err where
      "reaches_comparison conf e build eval selfMetadata hydraMetadata"
      "LastModified selfMetadata <s LastModified hydraMetadata"
      "j < length (HealthCheck_CanaryHosts conf)"
      "healthcheck_Ping e j (HealthCheck_CanaryHosts conf ! j) = Some err"
      "\<forall>i<j. healthcheck_Ping e i (HealthCheck_CanaryHosts conf ! i) = None"
      "calls (fst (Run conf e)) = fetch_calls conf build eval
          @ map Call_Ping (take (Suc j) (HealthCheck_CanaryHosts conf))"
      "snd (Run conf e) = Inl (Exit 1)"
  | (upgraded) build eval selfMetadata hydraMetadata where
      "reaches_comparison conf e build eval selfMetadata hydraMetadata"
      "LastModified selfMetadata <s LastModified hydraMetadata"
      "\<forall>i<length (HealthCheck_CanaryHosts conf).
          healthcheck_Ping e i (HealthCheck_CanaryHosts conf ! i) = None"
      "calls (fst (Run conf e)) = fetch_calls conf build eval
          @ map Call_Ping (HealthCheck_CanaryHosts conf)
          @ calls (fst (upgrade conf e (logLevel_of conf) (flakeSpec_of hydraMetadata conf)))"
      "snd (Run conf e) = snd (upgrade conf e (logLevel_of conf) (flakeSpec_of hydraMetadata conf))"
proof (cases "hydra_GetLatestBuild e (hydraClient_of conf)")
  case (Inl en)
  then have "Run conf e = ([Call_GetLatestBuild (hydraClient_of conf)], Inl en)"
    by (simp add: Run_def Let_def call_def)
  then show ?thesis using Inl latest_build_fails by simp
next
  case (Inr build)
  note g = this
  show ?thesis
  proof (cases "Finished build = 1")
    case False
    from Run_unfinished [OF g False] show ?thesis using g False unfinished by simp
  next
    case True
    note f = this
    show ?thesis
    proof (cases "BuildStatus build = 0")
      case False
      from Run_unsuccessful [OF g f False] show ?thesis using g f False unsuccessful by simp
    next
      case True
      note s = this
      note run = Run_finished_ok [OF g f s]
      show ?thesis
      proof (cases "hydra_GetEval e (hydraClient_of conf) build")
        case (Inl en)
        then have "Run conf e =
           ([Call_GetLatestBuild (hydraClient_of conf), Call_GetEval (hydraClient_of conf) build],
            Inl en)"
          unfolding run by (simp add: call_def)
        then show ?thesis using g f s Inl eval_fails by (simp add: fetch_calls_def)
      next
        case (Inr eval)
        note ev = this
        show ?thesis
        proof (cases "snd (GetFlakeMetadata e (logLevel_of conf) 0 ''self'')")
          case (Inl en)
          then have "Run conf e =
            ([Call_GetLatestBuild (hydraClient_of conf), Call_GetEval (hydraClient_of conf) build]
               @ fst (GetFlakeMetadata e (logLevel_of conf) 0 ''self''), Inl en)"
            unfolding run using ev by (simp add: andThen_alt call_def)
          then show ?thesis using g f s ev Inl self_metadata_fails [of build eval en]
            by (simp add: fetch_calls_def GetFlakeMetadata_calls)
        next
          case (Inr selfMetadata)
          note m1 = this
          show ?thesis
          proof (cases "snd (GetFlakeMetadata e (logLevel_of conf) 1 (Flake eval))")
            case (Inl en)
            then have "Run conf e = (fetch_trace conf e build eval, Inl en)"
              unfolding run using ev m1 by (simp add: andThen_alt call_def fetch_trace_def)
            then show ?thesis
              using g f s ev m1 Inl target_metadata_fails [of build eval selfMetadata en]
              by (simp add: calls_fetch_trace)
          next
            case (Inr hydraMetadata)
            have rc: "reaches_comparison conf e build eval selfMetadata hydraMetadata"
              using g f s ev m1 Inr by (simp add: reaches_comparison_def)
            note run2 = Run_reaches_comparison [OF rc]
            show ?thesis
            proof (cases "LastModified hydraMetadata \<le>s LastModified selfMetadata")
              case True
              show ?thesis
                using up_to_date [OF rc True] run2
                by (simp add: compare_noop [OF True] calls_fetch_trace)
            next
              case False
              then have newer: "LastModified selfMetadata <s LastModified hydraMetadata"
                by (simp add: word_sless_alt word_sle_eq)
              note run3 = run2 [unfolded compare_newer [OF False]]
              from first_failing_probe [of "HealthCheck_CanaryHosts conf" e 0]
              show ?thesis
              proof (elim disjE exE conjE)
                assume pass: "\<forall>i<length (HealthCheck_CanaryHosts conf).
                   healthcheck_Ping e (0 + i) (HealthCheck_CanaryHosts conf ! i) = None"
                then have pass': "\<forall>i<length (HealthCheck_CanaryHosts conf).
                   healthcheck_Ping e i (HealthCheck_CanaryHosts conf ! i) = None"
                  by simp
                show ?thesis
                  using upgraded [OF rc newer pass'] run3
                  by (simp add: gate_pass [OF pass'] calls_fetch_trace)
              next
                fix j err
                assume j: "j < length (HealthCheck_CanaryHosts conf)"
                  and bad: "healthcheck_Ping e (0 + j) (HealthCheck_CanaryHosts conf ! j) = Some err"
                  and before: "\<forall>i<j. healthcheck_Ping e (0 + i) (HealthCheck_CanaryHosts conf ! i) = None"
                from bad have bad': "healthcheck_Ping e j (HealthCheck_CanaryHosts conf ! j) = Some err"
                  by simp
                from before have before':
                  "\<forall>i<j. healthcheck_Ping e i (HealthCheck_CanaryHosts conf ! i) = None"
                  by simp
                show ?thesis
                  using probe_fails [OF rc newer j bad' before'] run3
                  by (simp add: gate_fail [OF j bad' before'] calls_fetch_trace)
              qed
            qed
          qed
        qed
      qed
    qed
  qed
qed

subsection \<open>An unfinished build\<close>

text \<open>
  C5. When the latest build is not finished (the run's test is \<open>build.Finished != 1\<close>), the
  run logs that the build is unfinished and leaves with \<open>os.Exit(0)\<close>; the only call it has
  made is the query for the latest build: no evaluation query, no metadata command, no probe
  and no upgrade follow the completion check.
\<close>

theorem unfinished_build_is_noop:
  assumes "hydra_GetLatestBuild e (hydraClient_of conf) = Inr build"
    and "Finished build \<noteq> 1"
  shows "snd (Run conf e) = Inl (Exit 0)
    \<and> calls (fst (Run conf e)) = [Call_GetLatestBuild (hydraClient_of conf)]
    \<and> fst (Run conf e) =
        [Call_GetLatestBuild (hydraClient_of conf),
         Log LevelInfo ''Latest build unfinished. Exiting.'' []]"
  using Run_unfinished [OF assms] by (simp add: calls_def)

theorem unfinished_build_is_noop_witness:
  "snd (Run (example_conf [''canary1''] True)
          (example_env (example_build 0 0) (metadata_text 100) (metadata_text 200) []))
     = Inl (Exit 0)
   \<and> calls (fst (Run (example_conf [''canary1''] True)
          (example_env (example_build 0 0) (metadata_text 100) (metadata_text 200) [])))
     = [Call_GetLatestBuild (hydraClient_of (example_conf [''canary1''] True))]"
proof -
  have a: "hydra_GetLatestBuild
             (example_env (example_build 0 0) (metadata_text 100) (metadata_text 200) [])
             (hydraClient_of (example_conf [''canary1''] True)) = Inr (example_build 0 0)"
    by (simp add: example_env_def)
  have b: "Finished (example_build 0 0) \<noteq> 1"
    by (simp add: example_build_def)
  show ?thesis using unfinished_build_is_noop [OF a b] by blast
qed

subsection \<open>The example environment, evaluated\<close>

lemma example_scan_100:
  \<open>example_scan ''{"lastModified":100,"originalUrl":"github:example/flake"}'' =
     Some (JObject [(''lastModified'', JNumber ''100''),
                    (''originalUrl'', JString ''github:example/flake'')])\<close>
  by (simp add: example_scan_def example_texts_def)

lemma example_scan_200:
  \<open>example_scan ''{"lastModified":200,"originalUrl":"github:example/flake"}'' =
     Some (JObject [(''lastModified'', JNumber ''200''),
                    (''originalUrl'', JString ''github:example/flake'')])\<close>
  by (simp add: example_scan_def example_texts_def)

lemma ParseInt_100: "ParseInt ''100'' = Some 100"
  by (simp add: ParseInt_def Let_def isDigit_def digitsValue_def)

lemma ParseInt_200: "ParseInt ''200'' = Some 200"
  by (simp add: ParseInt_def Let_def isDigit_def digitsValue_def)

lemma fieldByName_tags:
  "fieldByName ''lastModified'' = Some F_LastModified"
  "fieldByName ''originalUrl'' = Some F_OriginalUrl"
  by (simp_all add: fieldByName_def)

lemma Unmarshal_100:
  \<open>Unmarshal example_scan ''{"lastModified":100,"originalUrl":"github:example/flake"}'' zeroMetadata
     = (\<lparr>LastModified = 100, OriginalUrl = ''github:example/flake''\<rparr>, None)\<close>
  by (simp add: Unmarshal_def example_scan_100 fieldByName_tags ParseInt_100 zeroMetadata_def
      saveError_def)

lemma Unmarshal_200:
  \<open>Unmarshal example_scan ''{"lastModified":200,"originalUrl":"github:example/flake"}'' zeroMetadata
     = (\<lparr>LastModified = 200, OriginalUrl = ''github:example/flake''\<rparr>, None)\<close>
  by (simp add: Unmarshal_def example_scan_200 fieldByName_tags ParseInt_200 zeroMetadata_def
      saveError_def)

lemma example_metadata:
  "GetFlakeMetadata (example_env b (metadata_text 100) t d) LevelInfo 0 fl =
     ([Exec [''nix'', ''flake'', ''metadata'', fl, ''--json'']],
      Inr \<lparr>LastModified = 100, OriginalUrl = ''github:example/flake''\<rparr>)"
  "GetFlakeMetadata (example_env b s (metadata_text 100) d) LevelInfo (Suc 0) fl =
     ([Exec [''nix'', ''flake'', ''metadata'', fl, ''--json'']],
      Inr \<lparr>LastModified = 100, OriginalUrl = ''github:example/flake''\<rparr>)"
  "GetFlakeMetadata (example_env b s (metadata_text 200) d) LevelInfo (Suc 0) fl =
     ([Exec [''nix'', ''flake'', ''metadata'', fl, ''--json'']],
      Inr \<lparr>LastModified = 200, OriginalUrl = ''github:example/flake''\<rparr>)"
  by (simp_all add: GetFlakeMetadata_def Let_def call_def example_env_def metadata_text_def
      Unmarshal_100 Unmarshal_200 slog_def ret_def)

lemma example_reaches:
  "reaches_comparison (example_conf hosts reboot)
     (example_env (example_build 1 0) (metadata_text 100) (metadata_text 100) d)
     (example_build 1 0) \<lparr>Flake = ''git+https://example.org/flake''\<rparr>
     \<lparr>LastModified = 100, OriginalUrl = ''github:example/flake''\<rparr>
     \<lparr>LastModified = 100, OriginalUrl = ''github:example/flake''\<rparr>"
  "reaches_comparison (example_conf hosts reboot)
     (example_env (example_build 1 0) (metadata_text 100) (metadata_text 200) d)
     (example_build 1 0) \<lparr>Flake = ''git+https://example.org/flake''\<rparr>
     \<lparr>LastModified = 100, OriginalUrl = ''github:example/flake''\<rparr>
     \<lparr>LastModified = 200, OriginalUrl = ''github:example/flake''\<rparr>"
  by (simp_all add: reaches_comparison_def logLevel_of_def example_conf_def example_metadata)
     (simp_all add: example_env_def example_build_def)

subsection \<open>The freshness comparison\<close>

lemma upgrades_of_calls: "filter is_upgrade tr = filter is_upgrade (calls tr)"
proof (induction tr)
  case Nil
  show ?case by simp
next
  case (Cons ev tr)
  then show ?case by (cases ev) simp_all
qed

lemma upgrades_fetch_trace: "filter is_upgrade (fetch_trace conf e build eval) = []"
  by (simp add: upgrades_of_calls [of "fetch_trace conf e build eval"] calls_fetch_trace
      fetch_calls_def)

lemma gate_first_call:
  "calls (fst (gate_and_upgrade conf e logLevel hydraMetadata)) \<noteq> [] \<and>
   hd (calls (fst (gate_and_upgrade conf e logLevel hydraMetadata))) =
     (case HealthCheck_CanaryHosts conf of
        [] \<Rightarrow> Call_NixosRebuild (NixOSRebuild_Operation conf) (flakeSpec_of hydraMetadata conf)
                (NixOSRebuild_Args conf)
      | h # _ \<Rightarrow> Call_Ping h)"
proof (cases "HealthCheck_CanaryHosts conf")
  case Nil
  then show ?thesis
    by (simp add: gate_and_upgrade_def Let_def ret_def upgrade_calls)
next
  case (Cons h hs)
  then show ?thesis
    by (simp add: gate_and_upgrade_def Let_def call_def andThen_alt split: sum.splits)
qed

text \<open>
  C1. In a run that reaches the freshness comparison, the comparison is strict. If the
  target's \<open>LastModified\<close> is less than or equal to that of the running system, the run logs
  that the system is up to date and leaves with \<open>os.Exit(0)\<close>, and \<open>nixos-rebuild\<close> is
  never invoked. Only if it is strictly greater does the run go on into the health gate: it
  continues as lines 93 to 111, whose first call is the probe of the first canary host (or the
  upgrade itself when no canary host is configured).
\<close>

theorem freshness_comparison_is_strict:
  assumes "reaches_comparison conf e build eval selfMetadata hydraMetadata"
  shows "(sint (LastModified hydraMetadata) \<le> sint (LastModified selfMetadata) \<longrightarrow>
            Run conf e =
              (fetch_trace conf e build eval
                 @ [Log LevelInfo ''System is already up to date. Exiting.'' []],
               Inl (Exit 0))
            \<and> filter is_upgrade (fst (Run conf e)) = [])
       \<and> (sint (LastModified selfMetadata) < sint (LastModified hydraMetadata) \<longrightarrow>
            Run conf e =
              (fetch_trace conf e build eval
                 @ fst (gate_and_upgrade conf e (logLevel_of conf) hydraMetadata),
               snd (gate_and_upgrade conf e (logLevel_of conf) hydraMetadata))
            \<and> hd (calls (fst (gate_and_upgrade conf e (logLevel_of conf) hydraMetadata))) =
                (case HealthCheck_CanaryHosts conf of
                   [] \<Rightarrow> Call_NixosRebuild (NixOSRebuild_Operation conf)
                           (flakeSpec_of hydraMetadata conf) (NixOSRebuild_Args conf)
                 | h # _ \<Rightarrow> Call_Ping h))"
proof (intro conjI impI)
  assume le: "sint (LastModified hydraMetadata) \<le> sint (LastModified selfMetadata)"
  then have sle: "LastModified hydraMetadata \<le>s LastModified selfMetadata"
    by (simp add: word_sle_eq)
  show run: "Run conf e =
      (fetch_trace conf e build eval
         @ [Log LevelInfo ''System is already up to date. Exiting.'' []],
       Inl (Exit 0))"
    using Run_reaches_comparison [OF assms] by (simp add: compare_noop [OF sle])
  show "filter is_upgrade (fst (Run conf e)) = []"
    by (simp add: run upgrades_fetch_trace)
next
  assume lt: "sint (LastModified selfMetadata) < sint (LastModified hydraMetadata)"
  then have nle: "\<not> LastModified hydraMetadata \<le>s LastModified selfMetadata"
    by (simp add: word_sle_eq)
  show "Run conf e =
      (fetch_trace conf e build eval
         @ fst (gate_and_upgrade conf e (logLevel_of conf) hydraMetadata),
       snd (gate_and_upgrade conf e (logLevel_of conf) hydraMetadata))"
    using Run_reaches_comparison [OF assms] by (simp add: compare_newer [OF nle])
  show "hd (calls (fst (gate_and_upgrade conf e (logLevel_of conf) hydraMetadata))) =
      (case HealthCheck_CanaryHosts conf of
         [] \<Rightarrow> Call_NixosRebuild (NixOSRebuild_Operation conf)
                 (flakeSpec_of hydraMetadata conf) (NixOSRebuild_Args conf)
       | h # _ \<Rightarrow> Call_Ping h)"
    using gate_first_call by blast
qed

theorem freshness_comparison_is_strict_witness:
  "snd (Run (example_conf [''canary1''] False)
          (example_env (example_build 1 0) (metadata_text 100) (metadata_text 100) []))
     = Inl (Exit 0)
   \<and> filter is_upgrade
        (fst (Run (example_conf [''canary1''] False)
           (example_env (example_build 1 0) (metadata_text 100) (metadata_text 100) []))) = []
   \<and> hd (calls (fst (gate_and_upgrade (example_conf [''canary1''] False)
        (example_env (example_build 1 0) (metadata_text 100) (metadata_text 200) [])
        (logLevel_of (example_conf [''canary1''] False))
        \<lparr>LastModified = 200, OriginalUrl = ''github:example/flake''\<rparr>)))
     = Call_Ping ''canary1''"
proof -
  let ?m100 = "\<lparr>LastModified = 100, OriginalUrl = ''github:example/flake''\<rparr>"
  let ?m200 = "\<lparr>LastModified = 200, OriginalUrl = ''github:example/flake''\<rparr>"
  have eq: "sint (LastModified ?m100) \<le> sint (LastModified ?m100)" by simp
  have lt: "sint (LastModified ?m100) < sint (LastModified ?m200)" by simp
  have hosts: "HealthCheck_CanaryHosts (example_conf [''canary1''] False) = [''canary1'']"
    by (simp add: example_conf_def)
  note stale = freshness_comparison_is_strict
    [OF example_reaches(1), of "[''canary1'']" False "[]", THEN conjunct1, THEN mp, OF eq]
  note newer = freshness_comparison_is_strict
    [OF example_reaches(2), of "[''canary1'']" False "[]", THEN conjunct2, THEN mp, OF lt]
  have a: "snd (Run (example_conf [''canary1''] False)
          (example_env (example_build 1 0) (metadata_text 100) (metadata_text 100) []))
     = Inl (Exit 0)"
    using stale [THEN conjunct1] by simp
  have b: "hd (calls (fst (gate_and_upgrade (example_conf [''canary1''] False)
        (example_env (example_build 1 0) (metadata_text 100) (metadata_text 200) [])
        (logLevel_of (example_conf [''canary1''] False)) ?m200)))
     = Call_Ping ''canary1''"
    using newer [THEN conjunct2] by (simp add: hosts)
  from a stale [THEN conjunct2] b show ?thesis by blast
qed

subsection \<open>The health gate\<close>

lemma probes_of_calls: "filter is_probe tr = filter is_probe (calls tr)"
proof (induction tr)
  case Nil
  show ?case by simp
next
  case (Cons ev tr)
  then show ?case by (cases ev) simp_all
qed

lemma probes_fetch_trace: "filter is_probe (fetch_trace conf e build eval) = []"
  by (simp add: probes_of_calls [of "fetch_trace conf e build eval"] calls_fetch_trace
      fetch_calls_def)

lemma probes_map_Ping: "filter is_probe (map Call_Ping hs) = map Call_Ping hs"
  by (induction hs) simp_all

lemma upgrades_map_Ping: "filter is_upgrade (map Call_Ping hs) = []"
  by (induction hs) simp_all

lemma probes_upgrade: "filter is_probe (fst (upgrade conf e logLevel flakeSpec)) = []"
  by (simp add: probes_of_calls [of "fst (upgrade conf e logLevel flakeSpec)"] upgrade_calls)

lemma upgrades_upgrade:
  "filter is_upgrade (fst (upgrade conf e logLevel flakeSpec)) =
     [Call_NixosRebuild (NixOSRebuild_Operation conf) flakeSpec (NixOSRebuild_Args conf)]"
  by (simp add: upgrades_of_calls [of "fst (upgrade conf e logLevel flakeSpec)"] upgrade_calls)

text \<open>
  C3. In a run that reaches the health gate, the canary hosts are probed in the order of
  the list and the gate stops at the first failure: if the probe of host number \<open>j\<close> fails
  and the probes before it succeeded, the run has probed exactly the hosts up to number
  \<open>j\<close>, in order, logs the failed host's name and leaves with \<open>os.Exit(1)\<close>; no later host
  is probed. If every probe succeeds the run goes on to the upgrade, and so it does
  when the list of canary hosts is empty.
\<close>

theorem health_gate_is_fail_fast:
  assumes "reaches_comparison conf e build eval selfMetadata hydraMetadata"
    and "sint (LastModified selfMetadata) < sint (LastModified hydraMetadata)"
  shows "(\<forall>j err. j < length (HealthCheck_CanaryHosts conf)
             \<and> healthcheck_Ping e j (HealthCheck_CanaryHosts conf ! j) = Some err
             \<and> (\<forall>i<j. healthcheck_Ping e i (HealthCheck_CanaryHosts conf ! i) = None) \<longrightarrow>
           Run conf e =
             (fetch_trace conf e build eval
                @ map Call_Ping (take (Suc j) (HealthCheck_CanaryHosts conf))
                @ [Log LevelInfo ''Ping healthcheck failed. Exiting.''
                     [slog_String ''host'' (HealthCheck_CanaryHosts conf ! j)]],
              Inl (Exit 1))
           \<and> filter is_probe (fst (Run conf e))
               = map Call_Ping (take (Suc j) (HealthCheck_CanaryHosts conf))
           \<and> filter is_upgrade (fst (Run conf e)) = [])
       \<and> ((\<forall>i<length (HealthCheck_CanaryHosts conf).
              healthcheck_Ping e i (HealthCheck_CanaryHosts conf ! i) = None) \<longrightarrow>
           Run conf e =
             (fetch_trace conf e build eval
                @ map Call_Ping (HealthCheck_CanaryHosts conf)
                @ fst (upgrade conf e (logLevel_of conf) (flakeSpec_of hydraMetadata conf)),
              snd (upgrade conf e (logLevel_of conf) (flakeSpec_of hydraMetadata conf))))
       \<and> (HealthCheck_CanaryHosts conf = [] \<longrightarrow>
           filter is_probe (fst (Run conf e)) = []
           \<and> filter is_upgrade (fst (Run conf e)) =
               [Call_NixosRebuild (NixOSRebuild_Operation conf)
                  (flakeSpec_of hydraMetadata conf) (NixOSRebuild_Args conf)])"
proof -
  have nle: "\<not> LastModified hydraMetadata \<le>s LastModified selfMetadata"
    using assms(2) by (simp add: word_sle_eq)
  have run: "Run conf e =
      (fetch_trace conf e build eval
         @ fst (gate_and_upgrade conf e (logLevel_of conf) hydraMetadata),
       snd (gate_and_upgrade conf e (logLevel_of conf) hydraMetadata))"
    using Run_reaches_comparison [OF assms(1)] by (simp add: compare_newer [OF nle])
  have pass: "Run conf e =
        (fetch_trace conf e build eval
           @ map Call_Ping (HealthCheck_CanaryHosts conf)
           @ fst (upgrade conf e (logLevel_of conf) (flakeSpec_of hydraMetadata conf)),
         snd (upgrade conf e (logLevel_of conf) (flakeSpec_of hydraMetadata conf)))"
    if "\<forall>i<length (HealthCheck_CanaryHosts conf).
          healthcheck_Ping e i (HealthCheck_CanaryHosts conf ! i) = None"
    unfolding run by (simp add: gate_pass [OF that])
  have fail: "Run conf e =
        (fetch_trace conf e build eval
           @ map Call_Ping (take (Suc j) (HealthCheck_CanaryHosts conf))
           @ [Log LevelInfo ''Ping healthcheck failed. Exiting.''
                [slog_String ''host'' (HealthCheck_CanaryHosts conf ! j)]],
         Inl (Exit 1))"
    if "j < length (HealthCheck_CanaryHosts conf)"
      and "healthcheck_Ping e j (HealthCheck_CanaryHosts conf ! j) = Some err"
      and "\<forall>i<j. healthcheck_Ping e i (HealthCheck_CanaryHosts conf ! i) = None"
    for j err
    unfolding run by (simp add: gate_fail [OF that])
  show ?thesis
  proof (intro conjI allI impI)
    fix j err
    assume a: "j < length (HealthCheck_CanaryHosts conf)
             \<and> healthcheck_Ping e j (HealthCheck_CanaryHosts conf ! j) = Some err
             \<and> (\<forall>i<j. healthcheck_Ping e i (HealthCheck_CanaryHosts conf ! i) = None)"
    then have r: "Run conf e =
        (fetch_trace conf e build eval
           @ map Call_Ping (take (Suc j) (HealthCheck_CanaryHosts conf))
           @ [Log LevelInfo ''Ping healthcheck failed. Exiting.''
                [slog_String ''host'' (HealthCheck_CanaryHosts conf ! j)]],
         Inl (Exit 1))"
      using fail by blast
    show "Run conf e =
        (fetch_trace conf e build eval
           @ map Call_Ping (take (Suc j) (HealthCheck_CanaryHosts conf))
           @ [Log LevelInfo ''Ping healthcheck failed. Exiting.''
                [slog_String ''host'' (HealthCheck_CanaryHosts conf ! j)]],
         Inl (Exit 1))"
      by (rule r)
    show "filter is_probe (fst (Run conf e))
            = map Call_Ping (take (Suc j) (HealthCheck_CanaryHosts conf))"
      by (simp add: r probes_fetch_trace probes_map_Ping)
    show "filter is_upgrade (fst (Run conf e)) = []"
      by (simp add: r upgrades_fetch_trace upgrades_map_Ping)
  next
    assume "\<forall>i<length (HealthCheck_CanaryHosts conf).
              healthcheck_Ping e i (HealthCheck_CanaryHosts conf ! i) = None"
    then show "Run conf e =
        (fetch_trace conf e build eval
           @ map Call_Ping (HealthCheck_CanaryHosts conf)
           @ fst (upgrade conf e (logLevel_of conf) (flakeSpec_of hydraMetadata conf)),
         snd (upgrade conf e (logLevel_of conf) (flakeSpec_of hydraMetadata conf)))"
      by (rule pass)
  next
    assume empty: "HealthCheck_CanaryHosts conf = []"
    then have r: "Run conf e =
        (fetch_trace conf e build eval
           @ map Call_Ping (HealthCheck_CanaryHosts conf)
           @ fst (upgrade conf e (logLevel_of conf) (flakeSpec_of hydraMetadata conf)),
         snd (upgrade conf e (logLevel_of conf) (flakeSpec_of hydraMetadata conf)))"
      using pass by simp
    show "filter is_probe (fst (Run conf e)) = []"
      by (simp add: r empty probes_fetch_trace probes_upgrade)
    show "filter is_upgrade (fst (Run conf e)) =
               [Call_NixosRebuild (NixOSRebuild_Operation conf)
                  (flakeSpec_of hydraMetadata conf) (NixOSRebuild_Args conf)]"
      by (simp add: r empty upgrades_fetch_trace upgrades_upgrade)
  qed
qed


theorem health_gate_is_fail_fast_witness:
  "snd (Run (example_conf [''canary1'', ''canary2'', ''canary3''] False)
          (example_env (example_build 1 0) (metadata_text 100) (metadata_text 200)
             [''canary2'', ''canary3'']))
     = Inl (Exit 1)
   \<and> filter is_probe
        (fst (Run (example_conf [''canary1'', ''canary2'', ''canary3''] False)
           (example_env (example_build 1 0) (metadata_text 100) (metadata_text 200)
              [''canary2'', ''canary3''])))
     = [Call_Ping ''canary1'', Call_Ping ''canary2'']
   \<and> last (fst (Run (example_conf [''canary1'', ''canary2'', ''canary3''] False)
           (example_env (example_build 1 0) (metadata_text 100) (metadata_text 200)
              [''canary2'', ''canary3''])))
     = Log LevelInfo ''Ping healthcheck failed. Exiting.'' [slog_String ''host'' ''canary2'']
   \<and> filter is_upgrade
        (fst (Run (example_conf [] False)
           (example_env (example_build 1 0) (metadata_text 100) (metadata_text 200) [])))
     = [Call_NixosRebuild ''boot'' ''github:example/flake#host1'' []]"
proof -
  let ?m100 = "\<lparr>LastModified = 100, OriginalUrl = ''github:example/flake''\<rparr>"
  let ?m200 = "\<lparr>LastModified = 200, OriginalUrl = ''github:example/flake''\<rparr>"
  let ?conf = "example_conf [''canary1'', ''canary2'', ''canary3''] False"
  let ?env = "example_env (example_build 1 0) (metadata_text 100) (metadata_text 200)
                [''canary2'', ''canary3'']"
  have lt: "sint (LastModified ?m100) < sint (LastModified ?m200)" by simp
  have hosts: "HealthCheck_CanaryHosts ?conf = [''canary1'', ''canary2'', ''canary3'']"
    by (simp add: example_conf_def)
  have second: "1 < length (HealthCheck_CanaryHosts ?conf)
      \<and> healthcheck_Ping ?env 1 (HealthCheck_CanaryHosts ?conf ! 1)
          = Some (OtherError ''unreachable'')
      \<and> (\<forall>i<1. healthcheck_Ping ?env i (HealthCheck_CanaryHosts ?conf ! i) = None)"
    by (simp add: hosts example_env_def)
  note failing = health_gate_is_fail_fast
    [OF example_reaches(2) lt, of "[''canary1'', ''canary2'', ''canary3'']" False
       "[''canary2'', ''canary3'']",
     THEN conjunct1, THEN spec, THEN spec, THEN mp, OF second]
  have none: "HealthCheck_CanaryHosts (example_conf [] False) = []"
    by (simp add: example_conf_def)
  note empty = health_gate_is_fail_fast
    [OF example_reaches(2) lt, of "[]" False "[]",
     THEN conjunct2, THEN conjunct2, THEN mp, OF none]
  have a: "snd (Run ?conf ?env) = Inl (Exit 1)"
    using failing [THEN conjunct1] by simp
  have b: "filter is_probe (fst (Run ?conf ?env)) = [Call_Ping ''canary1'', Call_Ping ''canary2'']"
    using failing [THEN conjunct2, THEN conjunct1] by (simp add: hosts)
  have c: "last (fst (Run ?conf ?env))
     = Log LevelInfo ''Ping healthcheck failed. Exiting.'' [slog_String ''host'' ''canary2'']"
    using failing [THEN conjunct1] by (simp add: hosts)
  have d: "filter is_upgrade
        (fst (Run (example_conf [] False)
           (example_env (example_build 1 0) (metadata_text 100) (metadata_text 200) [])))
     = [Call_NixosRebuild ''boot'' ''github:example/flake#host1'' []]"
    using empty [THEN conjunct2] by (simp add: flakeSpec_of_def example_conf_def)
  from a b c d show ?thesis by blast
qed

subsection \<open>The upgrade and the reboot\<close>

lemma mem_calls: "is_call ev \<Longrightarrow> ev \<in> set tr \<longleftrightarrow> ev \<in> set (calls tr)"
  by (simp add: calls_def)

lemma Run_upgrade_event:
  assumes "Call_NixosRebuild op spec args \<in> set (fst (Run conf e))"
  obtains build eval selfMetadata hydraMetadata where
    "reaches_comparison conf e build eval selfMetadata hydraMetadata"
    "LastModified selfMetadata <s LastModified hydraMetadata"
    "\<forall>i<length (HealthCheck_CanaryHosts conf).
        healthcheck_Ping e i (HealthCheck_CanaryHosts conf ! i) = None"
    "op = NixOSRebuild_Operation conf" "spec = flakeSpec_of hydraMetadata conf"
    "args = NixOSRebuild_Args conf"
    "calls (fst (Run conf e)) = fetch_calls conf build eval
        @ map Call_Ping (HealthCheck_CanaryHosts conf)
        @ Call_NixosRebuild op spec args
        # (if nix_NixosRebuild e op spec args = None \<and> Reboot conf then [Call_Reboot] else [])"
proof -
  have m: "Call_NixosRebuild op spec args \<in> set (calls (fst (Run conf e)))"
    using assms mem_calls [of "Call_NixosRebuild op spec args" "fst (Run conf e)"] by simp
  show thesis
  proof (cases rule: Run_paths [of e conf])
    case (latest_build_fails en)
    then show ?thesis using m by simp
  next
    case (unfinished build)
    then show ?thesis using m by simp
  next
    case (unsuccessful build)
    then show ?thesis using m by simp
  next
    case (eval_fails build en)
    then show ?thesis using m by simp
  next
    case (self_metadata_fails build eval en)
    then show ?thesis using m by simp
  next
    case (target_metadata_fails build eval selfMetadata en)
    then show ?thesis using m by (simp add: fetch_calls_def)
  next
    case (up_to_date build eval selfMetadata hydraMetadata)
    then show ?thesis using m by (simp add: fetch_calls_def)
  next
    case (probe_fails build eval selfMetadata hydraMetadata j err)
    then show ?thesis using m by (auto simp: fetch_calls_def)
  next
    case (upgraded build eval selfMetadata hydraMetadata)
    from m upgraded(4) have eq: "op = NixOSRebuild_Operation conf
        \<and> spec = flakeSpec_of hydraMetadata conf \<and> args = NixOSRebuild_Args conf"
      by (auto simp: fetch_calls_def upgrade_calls split: if_splits)
    show ?thesis
      using that [OF upgraded(1) upgraded(2) upgraded(3)] eq upgraded(4)
      by (simp add: upgrade_calls)
  qed
qed


lemma Run_upgrades:
  "filter is_upgrade (fst (Run conf e)) = []
   \<or> (\<exists>op spec args. filter is_upgrade (fst (Run conf e)) = [Call_NixosRebuild op spec args])"
proof -
  have u: "filter is_upgrade (fst (Run conf e)) = filter is_upgrade (calls (fst (Run conf e)))"
    by (rule upgrades_of_calls)
  show ?thesis
  proof (cases rule: Run_paths [of e conf])
    case (probe_fails build eval selfMetadata hydraMetadata j err)
    then show ?thesis unfolding u by (simp add: fetch_calls_def upgrades_map_Ping)
  next
    case (upgraded build eval selfMetadata hydraMetadata)
    then show ?thesis unfolding u by (simp add: fetch_calls_def upgrades_map_Ping upgrade_calls)
  qed (simp_all add: u fetch_calls_def)
qed

text \<open>
  C2. In every run \<open>nix.NixosRebuild\<close> is invoked at most once. When it is invoked, the
  latest build came back finished (\<open>Finished = 1\<close>) and successful (\<open>BuildStatus = 0\<close>), the
  target's timestamp is strictly greater than that of the running system, the probe of every
  configured canary host succeeded, and the calls made before it are, in this order, the
  build query, the evaluation query, the two metadata commands and the probes of all canary
  hosts; no second upgrade follows.
\<close>

theorem upgrade_once_and_only_after_all_gates:
  "length (filter is_upgrade (fst (Run conf e))) \<le> 1
   \<and> (\<forall>op spec args. Call_NixosRebuild op spec args \<in> set (fst (Run conf e)) \<longrightarrow>
        (\<exists>build eval selfMetadata hydraMetadata post.
           reaches_comparison conf e build eval selfMetadata hydraMetadata
           \<and> Finished build = 1 \<and> BuildStatus build = 0
           \<and> sint (LastModified selfMetadata) < sint (LastModified hydraMetadata)
           \<and> (\<forall>i<length (HealthCheck_CanaryHosts conf).
                 healthcheck_Ping e i (HealthCheck_CanaryHosts conf ! i) = None)
           \<and> calls (fst (Run conf e)) =
                fetch_calls conf build eval
                @ map Call_Ping (HealthCheck_CanaryHosts conf)
                @ Call_NixosRebuild op spec args # post
           \<and> filter is_upgrade post = []))"
proof (intro conjI allI impI)
  show "length (filter is_upgrade (fst (Run conf e))) \<le> 1"
    using Run_upgrades [of conf e] by auto
next
  fix op spec args
  assume "Call_NixosRebuild op spec args \<in> set (fst (Run conf e))"
  then obtain build eval selfMetadata hydraMetadata where
    rc: "reaches_comparison conf e build eval selfMetadata hydraMetadata"
    and newer: "LastModified selfMetadata <s LastModified hydraMetadata"
    and pass: "\<forall>i<length (HealthCheck_CanaryHosts conf).
        healthcheck_Ping e i (HealthCheck_CanaryHosts conf ! i) = None"
    and cs: "calls (fst (Run conf e)) = fetch_calls conf build eval
        @ map Call_Ping (HealthCheck_CanaryHosts conf)
        @ Call_NixosRebuild op spec args
        # (if nix_NixosRebuild e op spec args = None \<and> Reboot conf then [Call_Reboot] else [])"
    by (rule Run_upgrade_event)
  have lt: "sint (LastModified selfMetadata) < sint (LastModified hydraMetadata)"
    using newer by (simp add: word_sless_alt)
  have fin: "Finished build = 1 \<and> BuildStatus build = 0"
    using rc by (simp add: reaches_comparison_def)
  have post: "filter is_upgrade
      (if nix_NixosRebuild e op spec args = None \<and> Reboot conf then [Call_Reboot] else []) = []"
    by simp
  show "\<exists>build eval selfMetadata hydraMetadata post.
           reaches_comparison conf e build eval selfMetadata hydraMetadata
           \<and> Finished build = 1 \<and> BuildStatus build = 0
           \<and> sint (LastModified selfMetadata) < sint (LastModified hydraMetadata)
           \<and> (\<forall>i<length (HealthCheck_CanaryHosts conf).
                 healthcheck_Ping e i (HealthCheck_CanaryHosts conf ! i) = None)
           \<and> calls (fst (Run conf e)) =
                fetch_calls conf build eval
                @ map Call_Ping (HealthCheck_CanaryHosts conf)
                @ Call_NixosRebuild op spec args # post
           \<and> filter is_upgrade post = []"
    using rc fin lt pass cs post by blast
qed

text \<open>
  C4. \<open>nix.Reboot\<close> is invoked exactly when the reboot flag is set and \<open>nix.NixosRebuild\<close>
  was invoked and came back. So it is never invoked in a run that does not reach the upgrade,
  in a run whose upgrade does not come back, or with the flag unset. When it is invoked, it is
  the last call of the run and the upgrade is the call before it.
\<close>

theorem reboot_iff_upgrade_succeeded_and_flag:
  "(Call_Reboot \<in> set (fst (Run conf e)) \<longleftrightarrow>
      Reboot conf
      \<and> (\<exists>op spec args. Call_NixosRebuild op spec args \<in> set (fst (Run conf e))
            \<and> nix_NixosRebuild e op spec args = None))
   \<and> (Call_Reboot \<in> set (fst (Run conf e)) \<longrightarrow>
        (\<exists>pre op spec args.
           calls (fst (Run conf e)) = pre @ [Call_NixosRebuild op spec args, Call_Reboot]
           \<and> Call_Reboot \<notin> set pre))"
proof -
  have rb: "Call_Reboot \<in> set (fst (Run conf e)) \<longleftrightarrow> Call_Reboot \<in> set (calls (fst (Run conf e)))"
    by (rule mem_calls) simp
  have up: "Call_NixosRebuild op spec args \<in> set (fst (Run conf e))
      \<longleftrightarrow> Call_NixosRebuild op spec args \<in> set (calls (fst (Run conf e)))" for op spec args
    by (rule mem_calls) simp
  show ?thesis
  proof (cases rule: Run_paths [of e conf])
    case (probe_fails build eval selfMetadata hydraMetadata j err)
    then show ?thesis unfolding rb up by (auto simp: fetch_calls_def)
  next
    case (upgraded build eval selfMetadata hydraMetadata)
    let ?op = "NixOSRebuild_Operation conf" and ?spec = "flakeSpec_of hydraMetadata conf"
      and ?args = "NixOSRebuild_Args conf"
    note cs = upgraded(4) [unfolded upgrade_calls]
    show ?thesis
    proof (cases "nix_NixosRebuild e ?op ?spec ?args = None \<and> Reboot conf")
      case True
      then have c: "calls (fst (Run conf e)) =
          (fetch_calls conf build eval @ map Call_Ping (HealthCheck_CanaryHosts conf))
          @ [Call_NixosRebuild ?op ?spec ?args, Call_Reboot]"
        using cs by simp
      have n: "Call_Reboot \<notin> set (fetch_calls conf build eval
          @ map Call_Ping (HealthCheck_CanaryHosts conf))"
        by (auto simp: fetch_calls_def)
      have "Call_Reboot \<in> set (calls (fst (Run conf e)))" using c by simp
      moreover have "Call_NixosRebuild ?op ?spec ?args \<in> set (calls (fst (Run conf e)))"
        using c by simp
      ultimately show ?thesis unfolding rb up using True c n by blast
    next
      case False
      then have c: "calls (fst (Run conf e)) =
          fetch_calls conf build eval @ map Call_Ping (HealthCheck_CanaryHosts conf)
          @ [Call_NixosRebuild ?op ?spec ?args]"
        using cs by auto
      have no: "Call_Reboot \<notin> set (calls (fst (Run conf e)))"
        unfolding c by (auto simp: fetch_calls_def)
      have only: "op = ?op \<and> spec = ?spec \<and> args = ?args"
        if "Call_NixosRebuild op spec args \<in> set (calls (fst (Run conf e)))" for op spec args
        using that unfolding c by (auto simp: fetch_calls_def)
      show ?thesis unfolding rb up using no only False by blast
    qed
  qed (simp_all add: rb up fetch_calls_def)
qed


lemma example_upgrade_calls:
  "calls (fst (Run (example_conf hosts reboot)
      (example_env (example_build 1 0) (metadata_text 100) (metadata_text 200) []))) =
   fetch_calls (example_conf hosts reboot) (example_build 1 0)
      \<lparr>Flake = ''git+https://example.org/flake''\<rparr>
   @ map Call_Ping hosts
   @ Call_NixosRebuild ''boot'' ''github:example/flake#host1'' []
   # (if reboot then [Call_Reboot] else [])"
proof -
  let ?conf = "example_conf hosts reboot"
  let ?env = "example_env (example_build 1 0) (metadata_text 100) (metadata_text 200) []"
  let ?m100 = "\<lparr>LastModified = 100, OriginalUrl = ''github:example/flake''\<rparr>"
  let ?m200 = "\<lparr>LastModified = 200, OriginalUrl = ''github:example/flake''\<rparr>"
  have nle: "\<not> LastModified ?m200 \<le>s LastModified ?m100" by simp
  have pass: "\<forall>i<length (HealthCheck_CanaryHosts ?conf).
      healthcheck_Ping ?env i (HealthCheck_CanaryHosts ?conf ! i) = None"
    by (simp add: example_env_def)
  have "calls (fst (Run ?conf ?env)) =
      fetch_calls ?conf (example_build 1 0) \<lparr>Flake = ''git+https://example.org/flake''\<rparr>
      @ map Call_Ping (HealthCheck_CanaryHosts ?conf)
      @ calls (fst (upgrade ?conf ?env (logLevel_of ?conf) (flakeSpec_of ?m200 ?conf)))"
    unfolding Run_reaches_comparison [OF example_reaches(2)] compare_newer [OF nle]
      gate_pass [OF pass]
    by (simp add: calls_fetch_trace)
  then show ?thesis
    by (simp add: upgrade_calls flakeSpec_of_def) (simp add: example_conf_def example_env_def)
qed

lemma example_upgrade_event:
  "Call_NixosRebuild ''boot'' ''github:example/flake#host1'' []
     \<in> set (fst (Run (example_conf hosts reboot)
          (example_env (example_build 1 0) (metadata_text 100) (metadata_text 200) [])))"
proof -
  have "Call_NixosRebuild ''boot'' ''github:example/flake#host1'' []
     \<in> set (calls (fst (Run (example_conf hosts reboot)
          (example_env (example_build 1 0) (metadata_text 100) (metadata_text 200) []))))"
    unfolding example_upgrade_calls by simp
  then show ?thesis by (simp add: calls_def)
qed

theorem upgrade_once_and_only_after_all_gates_witness:
  "length (filter is_upgrade (fst (Run (example_conf [''canary1''] False)
      (example_env (example_build 1 0) (metadata_text 100) (metadata_text 200) [])))) \<le> 1
   \<and> (\<exists>build eval selfMetadata hydraMetadata post.
         reaches_comparison (example_conf [''canary1''] False)
           (example_env (example_build 1 0) (metadata_text 100) (metadata_text 200) [])
           build eval selfMetadata hydraMetadata
         \<and> Finished build = 1 \<and> BuildStatus build = 0
         \<and> sint (LastModified selfMetadata) < sint (LastModified hydraMetadata)
         \<and> calls (fst (Run (example_conf [''canary1''] False)
              (example_env (example_build 1 0) (metadata_text 100) (metadata_text 200) []))) =
              fetch_calls (example_conf [''canary1''] False) build eval
              @ map Call_Ping [''canary1'']
              @ Call_NixosRebuild ''boot'' ''github:example/flake#host1'' [] # post
         \<and> filter is_upgrade post = [])"
proof -
  let ?conf = "example_conf [''canary1''] False"
  let ?env = "example_env (example_build 1 0) (metadata_text 100) (metadata_text 200) []"
  note th = upgrade_once_and_only_after_all_gates [of ?conf ?env]
  have hosts: "HealthCheck_CanaryHosts ?conf = [''canary1'']"
    by (simp add: example_conf_def)
  from th [THEN conjunct2, THEN spec, THEN spec, THEN spec, THEN mp, OF example_upgrade_event]
  have "\<exists>build eval selfMetadata hydraMetadata post.
         reaches_comparison ?conf ?env build eval selfMetadata hydraMetadata
         \<and> Finished build = 1 \<and> BuildStatus build = 0
         \<and> sint (LastModified selfMetadata) < sint (LastModified hydraMetadata)
         \<and> calls (fst (Run ?conf ?env)) =
              fetch_calls ?conf build eval
              @ map Call_Ping [''canary1'']
              @ Call_NixosRebuild ''boot'' ''github:example/flake#host1'' [] # post
         \<and> filter is_upgrade post = []"
    unfolding hosts by blast
  with th [THEN conjunct1] show ?thesis by blast
qed

theorem reboot_iff_upgrade_succeeded_and_flag_witness:
  "Call_Reboot \<in> set (fst (Run (example_conf [''canary1''] True)
      (example_env (example_build 1 0) (metadata_text 100) (metadata_text 200) [])))
   \<and> Call_Reboot \<notin> set (fst (Run (example_conf [''canary1''] False)
      (example_env (example_build 1 0) (metadata_text 100) (metadata_text 200) [])))"
proof -
  let ?env = "example_env (example_build 1 0) (metadata_text 100) (metadata_text 200) []"
  have ok: "nix_NixosRebuild ?env ''boot'' ''github:example/flake#host1'' [] = None"
    by (simp add: example_env_def)
  have on: "Reboot (example_conf [''canary1''] True)"
    and off: "\<not> Reboot (example_conf [''canary1''] False)"
    by (simp_all add: example_conf_def)
  have a: "Call_Reboot \<in> set (fst (Run (example_conf [''canary1''] True) ?env))"
    using reboot_iff_upgrade_succeeded_and_flag [of "example_conf [''canary1''] True" ?env,
        THEN conjunct1]
      on ok example_upgrade_event [of "[''canary1'']" True]
    by blast
  have b: "Call_Reboot \<notin> set (fst (Run (example_conf [''canary1''] False) ?env))"
    using reboot_iff_upgrade_succeeded_and_flag [of "example_conf [''canary1''] False" ?env,
        THEN conjunct1]
      off
    by blast
  from a b show ?thesis by blast
qed

subsection \<open>The upgrade target; the two build checks\<close>

text \<open>
  C7. The reference handed to the upgrade is computed, not fetched: it is the target
  metadata's \<open>OriginalUrl\<close>, then \<open>#\<close>, then the configured host, for every metadata and
  host. Whenever a run invokes \<open>nix.NixosRebuild\<close>, its flake argument is this string built
  from the metadata of the evaluation's flake; and a run that passes the comparison and the
  health gate always reaches the upgrade with it, so nothing can fail in between.
\<close>

theorem upgrade_target_is_url_hash_host:
  "flakeSpec_of hydraMetadata conf = OriginalUrl hydraMetadata @ ''#'' @ NixOSRebuild_Host conf
   \<and> (\<forall>op spec args. Call_NixosRebuild op spec args \<in> set (fst (Run conf e)) \<longrightarrow>
        (\<exists>build eval selfMetadata m.
           reaches_comparison conf e build eval selfMetadata m
           \<and> spec = OriginalUrl m @ ''#'' @ NixOSRebuild_Host conf))
   \<and> (\<forall>build eval selfMetadata m.
        reaches_comparison conf e build eval selfMetadata m
        \<and> sint (LastModified selfMetadata) < sint (LastModified m)
        \<and> (\<forall>i<length (HealthCheck_CanaryHosts conf).
              healthcheck_Ping e i (HealthCheck_CanaryHosts conf ! i) = None) \<longrightarrow>
        Call_NixosRebuild (NixOSRebuild_Operation conf)
          (OriginalUrl m @ ''#'' @ NixOSRebuild_Host conf) (NixOSRebuild_Args conf)
          \<in> set (fst (Run conf e)))"
proof (intro conjI allI impI)
  show "flakeSpec_of hydraMetadata conf
      = OriginalUrl hydraMetadata @ ''#'' @ NixOSRebuild_Host conf"
    by (simp add: flakeSpec_of_def)
next
  fix op spec args
  assume "Call_NixosRebuild op spec args \<in> set (fst (Run conf e))"
  then obtain build eval selfMetadata m where
    "reaches_comparison conf e build eval selfMetadata m" "spec = flakeSpec_of m conf"
    by (rule Run_upgrade_event)
  then show "\<exists>build eval selfMetadata m.
           reaches_comparison conf e build eval selfMetadata m
           \<and> spec = OriginalUrl m @ ''#'' @ NixOSRebuild_Host conf"
    unfolding flakeSpec_of_def by blast
next
  fix build eval selfMetadata m
  assume a: "reaches_comparison conf e build eval selfMetadata m
        \<and> sint (LastModified selfMetadata) < sint (LastModified m)
        \<and> (\<forall>i<length (HealthCheck_CanaryHosts conf).
              healthcheck_Ping e i (HealthCheck_CanaryHosts conf ! i) = None)"
  then have rc: "reaches_comparison conf e build eval selfMetadata m"
    and nle: "\<not> LastModified m \<le>s LastModified selfMetadata"
    and pass: "\<forall>i<length (HealthCheck_CanaryHosts conf).
              healthcheck_Ping e i (HealthCheck_CanaryHosts conf ! i) = None"
    by (simp_all add: word_sle_eq)
  have "calls (fst (Run conf e)) =
      fetch_calls conf build eval
      @ map Call_Ping (HealthCheck_CanaryHosts conf)
      @ calls (fst (upgrade conf e (logLevel_of conf) (flakeSpec_of m conf)))"
    unfolding Run_reaches_comparison [OF rc] compare_newer [OF nle] gate_pass [OF pass]
    by (simp add: calls_fetch_trace)
  then have "Call_NixosRebuild (NixOSRebuild_Operation conf)
          (OriginalUrl m @ ''#'' @ NixOSRebuild_Host conf) (NixOSRebuild_Args conf)
          \<in> set (calls (fst (Run conf e)))"
    by (simp add: upgrade_calls flakeSpec_of_def)
  then show "Call_NixosRebuild (NixOSRebuild_Operation conf)
          (OriginalUrl m @ ''#'' @ NixOSRebuild_Host conf) (NixOSRebuild_Args conf)
          \<in> set (fst (Run conf e))"
    by (simp add: calls_def)
qed

theorem upgrade_target_is_url_hash_host_witness:
  "flakeSpec_of \<lparr>LastModified = 200, OriginalUrl = ''github:example/flake''\<rparr>
      (example_conf [] False) = ''github:example/flake#host1''
   \<and> Call_NixosRebuild ''boot'' ''github:example/flake#host1'' []
      \<in> set (fst (Run (example_conf [] False)
           (example_env (example_build 1 0) (metadata_text 100) (metadata_text 200) [])))"
proof -
  let ?conf = "example_conf [] False"
  let ?env = "example_env (example_build 1 0) (metadata_text 100) (metadata_text 200) []"
  let ?m100 = "\<lparr>LastModified = 100, OriginalUrl = ''github:example/flake''\<rparr>"
  let ?m200 = "\<lparr>LastModified = 200, OriginalUrl = ''github:example/flake''\<rparr>"
  note th = upgrade_target_is_url_hash_host [of ?m200 ?conf ?env]
  have c: "NixOSRebuild_Host ?conf = ''host1''" "NixOSRebuild_Operation ?conf = ''boot''"
    "NixOSRebuild_Args ?conf = []" "HealthCheck_CanaryHosts ?conf = []"
    by (simp_all add: example_conf_def)
  have a: "flakeSpec_of ?m200 ?conf = ''github:example/flake#host1''"
    using th [THEN conjunct1] by (simp add: c)
  have hyp: "reaches_comparison ?conf ?env (example_build 1 0)
        \<lparr>Flake = ''git+https://example.org/flake''\<rparr> ?m100 ?m200
      \<and> sint (LastModified ?m100) < sint (LastModified ?m200)
      \<and> (\<forall>i<length (HealthCheck_CanaryHosts ?conf).
            healthcheck_Ping ?env i (HealthCheck_CanaryHosts ?conf ! i) = None)"
    using example_reaches(2) [of "[]" False "[]"] by (simp add: c)
  have b: "Call_NixosRebuild ''boot'' ''github:example/flake#host1'' []
      \<in> set (fst (Run ?conf ?env))"
    using th [THEN conjunct2, THEN conjunct2, THEN spec, THEN spec, THEN spec, THEN spec,
        THEN mp, OF hyp]
    by (simp add: c)
  from a b show ?thesis by blast
qed

lemma andThen_fst_prefix: "\<exists>rest. fst (andThen (tr, r) f) = tr @ rest"
  by (cases r) simp_all

text \<open>
  C10. The completion check is \<open>build.Finished != 1\<close>: the run counts a build as finished
  exactly when its \<open>Finished\<close> field is the integer 1. With any other value, 0 or not (2, say),
  the run logs that the build is unfinished and leaves with \<open>os.Exit(0)\<close>; with the value 1
  it does not take that exit.
\<close>

theorem finished_means_exactly_one:
  assumes "hydra_GetLatestBuild e (hydraClient_of conf) = Inr build"
  shows "(Run conf e =
            ([Call_GetLatestBuild (hydraClient_of conf),
              Log LevelInfo ''Latest build unfinished. Exiting.'' []],
             Inl (Exit 0)))
         \<longleftrightarrow> Finished build \<noteq> 1"
proof
  assume run: "Run conf e =
      ([Call_GetLatestBuild (hydraClient_of conf),
        Log LevelInfo ''Latest build unfinished. Exiting.'' []],
       Inl (Exit 0))"
  show "Finished build \<noteq> 1"
  proof
    assume f: "Finished build = 1"
    show False
    proof (cases "BuildStatus build = 0")
      case False
      from Run_unsuccessful [OF assms f False] run show False by simp
    next
      case True
      obtain rest where
        "fst (andThen ([Call_GetEval (hydraClient_of conf) build],
                 hydra_GetEval e (hydraClient_of conf) build)
               (\<lambda>eval.
                 andThen (GetFlakeMetadata e (logLevel_of conf) 0 ''self'') (\<lambda>selfMetadata.
                 andThen (slog (logLevel_of conf) LevelDebug ''hydraMetadata''
                            [slog_String ''flake'' (Flake eval)]) (\<lambda>_.
                 andThen (GetFlakeMetadata e (logLevel_of conf) 1 (Flake eval)) (\<lambda>hydraMetadata.
                 compare_and_upgrade conf e (logLevel_of conf) selfMetadata hydraMetadata)))))
          = [Call_GetEval (hydraClient_of conf) build] @ rest"
        using andThen_fst_prefix by blast
      then have "fst (Run conf e)
          = Call_GetLatestBuild (hydraClient_of conf) # Call_GetEval (hydraClient_of conf) build # rest"
        unfolding Run_finished_ok [OF assms f True] by (simp add: call_def)
      with run show False by simp
    qed
  qed
next
  assume "Finished build \<noteq> 1"
  then show "Run conf e =
      ([Call_GetLatestBuild (hydraClient_of conf),
        Log LevelInfo ''Latest build unfinished. Exiting.'' []],
       Inl (Exit 0))"
    by (rule Run_unfinished [OF assms])
qed

theorem finished_means_exactly_one_witness:
  "Run (example_conf [''canary1''] False)
     (example_env (example_build 2 0) (metadata_text 100) (metadata_text 200) [])
   = ([Call_GetLatestBuild (hydraClient_of (example_conf [''canary1''] False)),
       Log LevelInfo ''Latest build unfinished. Exiting.'' []],
      Inl (Exit 0))
   \<and> Run (example_conf [''canary1''] False)
     (example_env (example_build 1 0) (metadata_text 100) (metadata_text 200) [])
   \<noteq> ([Call_GetLatestBuild (hydraClient_of (example_conf [''canary1''] False)),
       Log LevelInfo ''Latest build unfinished. Exiting.'' []],
      Inl (Exit 0))"
proof -
  let ?conf = "example_conf [''canary1''] False"
  have g: "hydra_GetLatestBuild
      (example_env (example_build n 0) (metadata_text 100) (metadata_text 200) [])
      (hydraClient_of ?conf) = Inr (example_build n 0)" for n
    by (simp add: example_env_def)
  have two: "Finished (example_build 2 0) \<noteq> 1" and one: "\<not> Finished (example_build 1 0) \<noteq> 1"
    by (simp_all add: example_build_def)
  from finished_means_exactly_one [OF g [of 2], THEN iffD2, OF two]
    finished_means_exactly_one [OF g [of 1]] one
  show ?thesis by blast
qed

text \<open>
  C6. When the latest build is finished (\<open>Finished = 1\<close>) and its \<open>BuildStatus\<close> is not 0,
  the run logs the status and leaves with \<open>os.Exit(1)\<close>, a nonzero exit code; the only call
  it has made is the query for the latest build: no evaluation query, no metadata command,
  no probe and no upgrade.
\<close>

theorem unsuccessful_build_fails:
  assumes "hydra_GetLatestBuild e (hydraClient_of conf) = Inr build"
    and "Finished build = 1" and "BuildStatus build \<noteq> 0"
  shows "(\<exists>code. snd (Run conf e) = Inl (Exit code) \<and> code \<noteq> 0)
    \<and> snd (Run conf e) = Inl (Exit 1)
    \<and> calls (fst (Run conf e)) = [Call_GetLatestBuild (hydraClient_of conf)]
    \<and> fst (Run conf e) =
        [Call_GetLatestBuild (hydraClient_of conf),
         Log LevelInfo ''Latest build unsuccessful. Exiting.''
           [slog_Int ''buildstatus'' (BuildStatus build)]]"
  using Run_unsuccessful [OF assms] by simp

theorem unsuccessful_build_fails_witness:
  "snd (Run (example_conf [''canary1''] True)
          (example_env (example_build 1 1) (metadata_text 100) (metadata_text 200) []))
     = Inl (Exit 1)
   \<and> fst (Run (example_conf [''canary1''] True)
          (example_env (example_build 1 1) (metadata_text 100) (metadata_text 200) []))
     = [Call_GetLatestBuild (hydraClient_of (example_conf [''canary1''] True)),
        Log LevelInfo ''Latest build unsuccessful. Exiting.'' [slog_Int ''buildstatus'' 1]]"
proof -
  let ?env = "example_env (example_build 1 1) (metadata_text 100) (metadata_text 200) []"
  have a: "hydra_GetLatestBuild ?env (hydraClient_of (example_conf [''canary1''] True))
      = Inr (example_build 1 1)"
    by (simp add: example_env_def)
  have b: "Finished (example_build 1 1) = 1" and c: "BuildStatus (example_build 1 1) \<noteq> 0"
    and d: "BuildStatus (example_build 1 1) = 1"
    by (simp_all add: example_build_def)
  from unsuccessful_build_fails [OF a b c] show ?thesis unfolding d by blast
qed

subsection \<open>Fetching and decoding the metadata\<close>

lemma fits_store: "fits f v \<longleftrightarrow> snd (store f v m) = None"
  by (cases f; cases v) (simp_all split: option.splits)

lemma store_other_field:
  "LastModified (fst (store F_OriginalUrl v m)) = LastModified m"
  "OriginalUrl (fst (store F_LastModified v m)) = OriginalUrl m"
  by (cases v; simp split: option.splits)+

lemma saveError_None: "saveError saved None = saved"
  by (cases saved) (simp_all add: saveError_def)

lemma object_well_typed:
  "well_typed members \<Longrightarrow> snd (object members (m, saved)) = saved"
proof (induction members arbitrary: m saved)
  case Nil
  show ?case by simp
next
  case (Cons kv members)
  obtain key v where kv: "kv = (key, v)" by (cases kv)
  from Cons.prems have rest: "well_typed members"
    and here: "case fieldByName key of None \<Rightarrow> True | Some f \<Rightarrow> fits f v"
    by (simp_all add: well_typed_def kv)
  show ?case
  proof (cases "fieldByName key")
    case None
    then show ?thesis using Cons.IH [OF rest] by (simp add: kv)
  next
    case (Some f)
    with here have "fits f v" by simp
    then have "snd (store f v m) = None" by (simp add: fits_store [of f v m])
    then obtain m' where "store f v m = (m', None)" by (cases "store f v m") simp
    then show ?thesis using Some Cons.IH [OF rest, of m' saved]
      by (simp add: kv saveError_None)
  qed
qed

lemma object_unmentioned_LastModified:
  "\<not> mentions F_LastModified members \<Longrightarrow>
   LastModified (fst (object members (m, saved))) = LastModified m"
proof (induction members arbitrary: m saved)
  case Nil
  show ?case by simp
next
  case (Cons kv members)
  obtain key v where kv: "kv = (key, v)" by (cases kv)
  from Cons.prems have rest: "\<not> mentions F_LastModified members"
    and here: "fieldByName key \<noteq> Some F_LastModified"
    by (simp_all add: mentions_def kv)
  show ?case
  proof (cases "fieldByName key")
    case None
    then show ?thesis using Cons.IH [OF rest] by (simp add: kv)
  next
    case (Some f)
    with here have f: "f = F_OriginalUrl" by (cases f) simp_all
    obtain m' err where st: "store F_OriginalUrl v m = (m', err)"
      by (cases "store F_OriginalUrl v m")
    then have "LastModified m' = LastModified m"
      using store_other_field(1) [of v m] by simp
    then show ?thesis using Some f st Cons.IH [OF rest, of m' "saveError saved err"]
      by (simp add: kv)
  qed
qed

lemma object_unmentioned_OriginalUrl:
  "\<not> mentions F_OriginalUrl members \<Longrightarrow>
   OriginalUrl (fst (object members (m, saved))) = OriginalUrl m"
proof (induction members arbitrary: m saved)
  case Nil
  show ?case by simp
next
  case (Cons kv members)
  obtain key v where kv: "kv = (key, v)" by (cases kv)
  from Cons.prems have rest: "\<not> mentions F_OriginalUrl members"
    and here: "fieldByName key \<noteq> Some F_OriginalUrl"
    by (simp_all add: mentions_def kv)
  show ?case
  proof (cases "fieldByName key")
    case None
    then show ?thesis using Cons.IH [OF rest] by (simp add: kv)
  next
    case (Some f)
    with here have f: "f = F_LastModified" by (cases f) simp_all
    obtain m' err where st: "store F_LastModified v m = (m', err)"
      by (cases "store F_LastModified v m")
    then have "OriginalUrl m' = OriginalUrl m"
      using store_other_field(2) [of v m] by simp
    then show ?thesis using Some f st Cons.IH [OF rest, of m' "saveError saved err"]
      by (simp add: kv)
  qed
qed



lemma GetFlakeMetadata_decodes:
  "cmd_Output e k (metadata_cmd flake) = (output, None) \<Longrightarrow>
   Unmarshal (json_scan e) output zeroMetadata = (m, None) \<Longrightarrow>
   GetFlakeMetadata e logLevel k flake =
     (Exec (metadata_cmd flake) # fst (slog logLevel LevelDebug (formatMetadata m) []), Inr m)"
  by (simp add: GetFlakeMetadata_def metadata_cmd_def Let_def call_def ret_def andThen_alt)












lemma Unmarshal_object:
  "scan out = Some (JObject members) \<Longrightarrow>
   Unmarshal scan out v = object members (v, None)"
  by (simp add: Unmarshal_def)

text \<open>
  C9 (amended). When the command succeeds and its output is the JSON value \<open>null\<close>, or a
  JSON object in which every member whose key selects one of the two fields (by the tag, or
  by the tag ignoring case) holds \<open>null\<close> or a value of that field's type (for
  \<open>lastModified\<close> an integer literal in the \<open>int64\<close> range, for \<open>originalUrl\<close> a string),
  \<open>GetFlakeMetadata\<close> does not fail, and every field that no member's key selects comes
  back as zero: timestamp 0, empty URL.
\<close>

theorem missing_fields_decode_to_zero:
  assumes "cmd_Output e k (metadata_cmd flake) = (output, None)"
  shows "(json_scan e output = Some JNull \<longrightarrow>
            snd (GetFlakeMetadata e logLevel k flake) = Inr zeroMetadata)
     \<and> (\<forall>members. json_scan e output = Some (JObject members) \<and> well_typed members \<longrightarrow>
          (\<exists>m. snd (GetFlakeMetadata e logLevel k flake) = Inr m
             \<and> (\<not> mentions F_LastModified members \<longrightarrow> LastModified m = 0)
             \<and> (\<not> mentions F_OriginalUrl members \<longrightarrow> OriginalUrl m = [])))"
proof (intro conjI allI impI)
  assume "json_scan e output = Some JNull"
  then have "Unmarshal (json_scan e) output zeroMetadata = (zeroMetadata, None)"
    by (simp add: Unmarshal_def)
  then show "snd (GetFlakeMetadata e logLevel k flake) = Inr zeroMetadata"
    by (simp add: GetFlakeMetadata_decodes [OF assms])
next
  fix members
  assume a: "json_scan e output = Some (JObject members) \<and> well_typed members"
  define m where "m = fst (object members (zeroMetadata, None))"
  have "snd (object members (zeroMetadata, None)) = None"
    using a by (simp add: object_well_typed)
  then have "Unmarshal (json_scan e) output zeroMetadata = (m, None)"
    using a by (simp add: Unmarshal_object m_def prod_eq_iff)
  then have ok: "snd (GetFlakeMetadata e logLevel k flake) = Inr m"
    by (simp add: GetFlakeMetadata_decodes [OF assms])
  have t: "LastModified m = 0" if "\<not> mentions F_LastModified members"
    using object_unmentioned_LastModified [OF that, of zeroMetadata None]
    by (simp add: m_def zeroMetadata_def)
  have u: "OriginalUrl m = []" if "\<not> mentions F_OriginalUrl members"
    using object_unmentioned_OriginalUrl [OF that, of zeroMetadata None]
    by (simp add: m_def zeroMetadata_def)
  from ok t u show "\<exists>m. snd (GetFlakeMetadata e logLevel k flake) = Inr m
             \<and> (\<not> mentions F_LastModified members \<longrightarrow> LastModified m = 0)
             \<and> (\<not> mentions F_OriginalUrl members \<longrightarrow> OriginalUrl m = [])"
    by blast
qed


theorem missing_fields_decode_to_zero_witness:
  \<open>(\<exists>m. snd (GetFlakeMetadata
              (example_env (example_build 1 0) (''{}'', None) (metadata_text 200) [])
              LevelInfo 0 ''self'') = Inr m
        \<and> LastModified m = 0 \<and> OriginalUrl m = [])
   \<and> (\<exists>m. snd (GetFlakeMetadata
              (example_env (example_build 1 0)
                 (''{"originalUrl":"github:example/flake"}'', None) (metadata_text 200) [])
              LevelInfo 0 ''self'') = Inr m
        \<and> LastModified m = 0)\<close>
proof -
  let ?empty = "example_env (example_build 1 0) (''{}'', None) (metadata_text 200) []"
  let ?text = \<open>''{"originalUrl":"github:example/flake"}''\<close>
  let ?partial = "example_env (example_build 1 0) (?text, None) (metadata_text 200) []"
  have out1: "cmd_Output ?empty 0 (metadata_cmd ''self'') = (''{}'', None)"
    by (simp add: example_env_def)
  have obj1: "json_scan ?empty ''{}'' = Some (JObject []) \<and> well_typed []"
    by (simp add: example_env_def example_scan_def example_texts_def well_typed_def)
  have no1: "\<not> mentions F_LastModified []" "\<not> mentions F_OriginalUrl []"
    by (simp_all add: mentions_def)
  have a: "\<exists>m. snd (GetFlakeMetadata ?empty LevelInfo 0 ''self'') = Inr m
        \<and> LastModified m = 0 \<and> OriginalUrl m = []"
    using missing_fields_decode_to_zero [OF out1, of LevelInfo, THEN conjunct2, THEN spec,
        THEN mp, OF obj1] no1
    by blast
  have out2: "cmd_Output ?partial 0 (metadata_cmd ''self'') = (?text, None)"
    by (simp add: example_env_def)
  have obj2: "json_scan ?partial ?text
        = Some (JObject [(''originalUrl'', JString ''github:example/flake'')])
      \<and> well_typed [(''originalUrl'', JString ''github:example/flake'')]"
    by (simp add: example_env_def example_scan_def example_texts_def well_typed_def
        fieldByName_tags)
  have no2: "\<not> mentions F_LastModified [(''originalUrl'', JString ''github:example/flake'')]"
    by (simp add: mentions_def fieldByName_tags)
  have b: "\<exists>m. snd (GetFlakeMetadata ?partial LevelInfo 0 ''self'') = Inr m
        \<and> LastModified m = 0"
    using missing_fields_decode_to_zero [OF out2, of LevelInfo, THEN conjunct2, THEN spec,
        THEN mp, OF obj2] no2
    by blast
  from a b show ?thesis by blast
qed

lemma fieldByName_upper: "fieldByName ''LASTMODIFIED'' = Some F_LastModified"
  by (simp add: fieldByName_def toUpper_def)

text \<open>
  C9 as first stated does not hold: the command succeeds and prints well-formed JSON
  without a \<open>lastModified\<close> member, and \<open>GetFlakeMetadata\<close> panics all the same, on the
  array \<open>[]\<close> and on an object whose \<open>originalUrl\<close> is a number; and an object whose only
  member is spelled \<open>LASTMODIFIED\<close> comes back with that timestamp, not with zero.
\<close>

theorem missing_fields_counterexample:
  \<open>json_scan (example_env (example_build 1 0) (''[]'', None) (metadata_text 200) []) ''[]''
     = Some (JArray [])
   \<and> snd (GetFlakeMetadata
            (example_env (example_build 1 0) (''[]'', None) (metadata_text 200) [])
            LevelInfo 0 ''self'')
     = Inl (Panic (UnmarshalTypeError ''array'' []))
   \<and> json_scan (example_env (example_build 1 0) (''{"originalUrl":5}'', None)
                  (metadata_text 200) []) ''{"originalUrl":5}''
     = Some (JObject [(''originalUrl'', JNumber ''5'')])
   \<and> snd (GetFlakeMetadata
            (example_env (example_build 1 0) (''{"originalUrl":5}'', None)
               (metadata_text 200) [])
            LevelInfo 0 ''self'')
     = Inl (Panic (UnmarshalTypeError ''number'' ''originalUrl''))
   \<and> json_scan (example_env (example_build 1 0) (''{"LASTMODIFIED":7}'', None)
                  (metadata_text 200) []) ''{"LASTMODIFIED":7}''
     = Some (JObject [(''LASTMODIFIED'', JNumber ''7'')])
   \<and> snd (GetFlakeMetadata
            (example_env (example_build 1 0) (''{"LASTMODIFIED":7}'', None)
               (metadata_text 200) [])
            LevelInfo 0 ''self'')
     = Inr \<lparr>LastModified = 7, OriginalUrl = []\<rparr>\<close>
proof -
  have scan: \<open>example_scan ''[]'' = Some (JArray [])\<close>
    \<open>example_scan ''{"originalUrl":5}'' = Some (JObject [(''originalUrl'', JNumber ''5'')])\<close>
    \<open>example_scan ''{"LASTMODIFIED":7}'' = Some (JObject [(''LASTMODIFIED'', JNumber ''7'')])\<close>
    by (simp_all add: example_scan_def example_texts_def)
  have seven: "ParseInt ''7'' = Some 7"
    by (simp add: ParseInt_def Let_def isDigit_def digitsValue_def)
  have dec: \<open>Unmarshal example_scan ''[]'' zeroMetadata
        = (zeroMetadata, Some (UnmarshalTypeError ''array'' []))\<close>
    \<open>Unmarshal example_scan ''{"originalUrl":5}'' zeroMetadata
        = (zeroMetadata, Some (UnmarshalTypeError ''number'' ''originalUrl''))\<close>
    \<open>Unmarshal example_scan ''{"LASTMODIFIED":7}'' zeroMetadata
        = (\<lparr>LastModified = 7, OriginalUrl = []\<rparr>, None)\<close>
    by (simp_all add: Unmarshal_def scan fieldByName_tags fieldByName_upper seven
        saveError_def zeroMetadata_def)
  show ?thesis
    by (simp add: example_env_def scan dec GetFlakeMetadata_def Let_def call_def panic_def
        ret_def slog_def)
qed

end
